theory Spec2Isabelle
  imports Complex_Main "HOL-Library.Multiset" "HOL-Library.Char_ord" "HOL-Library.List_Lexorder"
begin

section \<open>Conventions of the embedding\<close>

text \<open>
  The program is TypeScript. A finite \<open>number\<close> is a \<^typ>\<open>real\<close>, and the arithmetic on
  finite numbers is exact: there is no rounding and no overflow. The results that are not
  finite are written out wherever the code can reach them from finite inputs: a division
  by zero, and a power or a square root of a negative number. The value NaN is the
  constructor \<open>NaN\<close> of the type \<open>number\<close> below: arithmetic on NaN gives NaN, and every
  comparison with NaN is false. A \<open>Date\<close> is its time value, an \<^typ>\<open>int\<close> of
  milliseconds since the Unix epoch; \<open>new Date(t)\<close> truncates a number towards zero
  (\<open>newDate\<close>), and the bound on the time value of a \<open>Date\<close> (8.64e15 milliseconds
  either side of the epoch) is left out. An optional argument or field is an
  \<^typ>\<open>'a option\<close>.
\<close>

datatype number = Num real | NaN

text \<open>
  The operations the code applies to a number that may be NaN: a product with a finite
  factor, a difference, the comparisons \<open>\<le>\<close> and \<open><\<close>, and the statement
  \<open>if (x > m) m = x\<close> for a finite \<open>m\<close>.
\<close>

fun num_mult :: "number \<Rightarrow> real \<Rightarrow> number" where
  "num_mult (Num x) c = Num (x * c)"
| "num_mult NaN c = NaN"

fun num_diff :: "number \<Rightarrow> number \<Rightarrow> number" where
  "num_diff (Num x) (Num y) = Num (x - y)"
| "num_diff (Num x) NaN = NaN"
| "num_diff NaN y = NaN"

fun num_le :: "number \<Rightarrow> real \<Rightarrow> bool" where
  "num_le (Num x) r = (x \<le> r)"
| "num_le NaN r = False"

fun num_lt :: "number \<Rightarrow> number \<Rightarrow> bool" where
  "num_lt (Num x) (Num y) = (x < y)"
| "num_lt (Num x) NaN = False"
| "num_lt NaN y = False"

fun raise_to :: "real \<Rightarrow> number \<Rightarrow> real" where
  "raise_to m (Num x) = (if x > m then x else m)"
| "raise_to m NaN = m"

subsection \<open>types.ts\<close>

text \<open>
  A \<open>Position\<close> with finite coordinates. A position computed by the code has three
  finite coordinates or three NaN coordinates (\<open>calculateKeplerPosition\<close> below, and the
  coordinatewise difference of two such positions); \<open>NaNPosition\<close> is the latter.
\<close>

record Position =
  px :: real
  py :: real
  pz :: real

datatype PositionValue = At Position | NaNPosition

record OrbitalElements =
  el_N :: real
  el_i :: real
  el_w :: real
  el_a :: real
  el_e :: real
  el_M :: real

text \<open>Of \<open>PlanetData\<close> the engine reads the id and the elements only.\<close>

record PlanetData =
  pd_id :: string
  elements :: OrbitalElements

text \<open>Of \<open>AppSettings\<close>: the fields read by the projection and by the simulation hook.\<close>

record AppSettings =
  viewTilt :: real
  viewYaw :: real
  enablePerspective :: bool
  enableProximitySim :: bool
  useHighPrecision :: bool
  continuousIteration :: bool
  showEventHighlights :: bool

datatype EventType = TRANSIT | PLANETARY_ALIGNMENT

datatype SearchSpeed = low | medium | high

record FoundEvent =
  ev_id :: string
  ev_type :: EventType
  ev_targetIds :: "string list"
  startDate :: int
  endDate :: int
  optimalDate :: real
  minAngle :: real
  ev_strictMode :: bool

definition origin :: Position where
  "origin = \<lparr>px = 0, py = 0, pz = 0\<rparr>"

section \<open>core/projection.ts\<close>

definition BASE_PROXIMITY_CONST :: real where
  "BASE_PROXIMITY_CONST = 2000"

definition INFINITE_CAMERA_DIST :: real where
  "INFINITE_CAMERA_DIST = 100000"

definition TIER_2_IDS :: "string list" where
  "TIER_2_IDS = [''jupiter'', ''saturn'', ''uranus'', ''neptune'']"

record ProjectedPoint =
  sx :: number
  sy :: number
  depth :: real
  scaleFactor :: number
  isVisible :: bool
  opacity :: real

text \<open>
  The three intermediate values of \<open>project3D\<close> that its callers and the statements below
  refer to: the depth in pixels (after the pivot translation, the yaw and the tilt), the
  effective camera distance, and their difference \<open>dist\<close> (here \<open>dst\<close>). The camera
  distance \<open>BASE_PROXIMITY_CONST / zoomK\<close> is a real number for a zoom factor other than
  0; the zoom factor 0 is a case of its own in \<open>project3D\<close>.
\<close>

definition depth_pixels :: "Position \<Rightarrow> real \<Rightarrow> AppSettings \<Rightarrow> Position \<Rightarrow> real" where
  "depth_pixels pos scale settings centerOfRotation =
    (let tiltRad = (viewTilt settings * pi) / 180;
         yawRad = (viewYaw settings * pi) / 180;
         sinTilt = sin tiltRad;
         cosTilt = cos tiltRad;
         cosYaw = cos yawRad;
         sinYaw = sin yawRad;
         x_rel = px pos - px centerOfRotation;
         y_rel = py pos - py centerOfRotation;
         z_rel = pz pos - pz centerOfRotation;
         y_yaw = x_rel * sinYaw + y_rel * cosYaw;
         z_yaw = z_rel
     in (z_yaw * sinTilt - y_yaw * cosTilt) * scale)"

definition effectiveCameraDist :: "AppSettings \<Rightarrow> real \<Rightarrow> real" where
  "effectiveCameraDist settings zoomK =
    (if enableProximitySim settings then BASE_PROXIMITY_CONST / zoomK else INFINITE_CAMERA_DIST)"

definition camera_dist :: "Position \<Rightarrow> real \<Rightarrow> AppSettings \<Rightarrow> real \<Rightarrow> Position \<Rightarrow> real" where
  "camera_dist pos scale settings zoomK centerOfRotation =
    effectiveCameraDist settings zoomK - depth_pixels pos scale settings centerOfRotation"

text \<open>The proximity fade of the gas-giant tier and of the remaining bodies.\<close>

definition tier2_opacity :: "real \<Rightarrow> real" where
  "tier2_opacity dst =
    (let nearPlane = 100; fadeRange = 300;
         val = (if dst \<le> nearPlane then 0
                else if dst < nearPlane + fadeRange then (dst - nearPlane) / fadeRange
                else 1.0)
     in max val 0.3)"

definition other_opacity :: "string option \<Rightarrow> real \<Rightarrow> real" where
  "other_opacity bid dst =
    (let nearPlane = (if bid = Some ''mercury'' \<or> bid = Some ''venus'' then 50 else 100);
         fadeRange = (if bid = Some ''mercury'' \<or> bid = Some ''venus'' then 150 else 300)
     in if dst \<le> nearPlane then 0
        else if dst < nearPlane + fadeRange then (dst - nearPlane) / fadeRange
        else 1.0)"

text \<open>
  With perspective and the proximity simulation on, a zoom factor 0 makes the camera
  distance \<open>2000 / 0\<close>, which is \<open>Infinity\<close>. Then \<open>dist\<close> is \<open>Infinity\<close> as well, the
  culling test \<open>dist <= 0\<close> is false, \<open>scaleFactor\<close> is \<open>Infinity / Infinity\<close>, which is
  NaN, and \<open>x\<close> and \<open>y\<close> are products with NaN. No fade test on \<open>dist\<close> holds, so the
  opacity keeps its initial value 1.0 for every body (for the gas-giant tier \<open>val\<close> stays
  1.0 and \<open>Math.max(val, 0.3)\<close> is 1.0), and the point stays visible. This is the first
  branch under \<open>enablePerspective\<close>; in the second the camera distance is finite.
\<close>

definition project3D ::
  "Position \<Rightarrow> real \<Rightarrow> AppSettings \<Rightarrow> real \<Rightarrow> string option \<Rightarrow> Position \<Rightarrow> ProjectedPoint" where
  "project3D pos scale settings zoomK bid centerOfRotation =
    (let tiltRad = (viewTilt settings * pi) / 180;
         yawRad = (viewYaw settings * pi) / 180;
         sinTilt = sin tiltRad;
         cosTilt = cos tiltRad;
         cosYaw = cos yawRad;
         sinYaw = sin yawRad;
         x_rel = px pos - px centerOfRotation;
         y_rel = py pos - py centerOfRotation;
         z_rel = pz pos - pz centerOfRotation;
         x_yaw = x_rel * cosYaw - y_rel * sinYaw;
         y_yaw = x_rel * sinYaw + y_rel * cosYaw;
         z_yaw = z_rel;
         x_screen_ortho = x_yaw * scale;
         y_screen_ortho = - (y_yaw * sinTilt + z_yaw * cosTilt) * scale;
         depth_px = (z_yaw * sinTilt - y_yaw * cosTilt) * scale
     in if enablePerspective settings then
          (if enableProximitySim settings \<and> zoomK = 0 then
             \<lparr>sx = NaN, sy = NaN, depth = depth_px, scaleFactor = NaN,
               isVisible = \<not> (1.0::real) < 0.01, opacity = 1.0\<rparr>
           else
             (let camDist = effectiveCameraDist settings zoomK;
                  dst = camDist - depth_px
              in if dst \<le> 0 then
                   \<lparr>sx = Num 0, sy = Num 0, depth = depth_px, scaleFactor = Num 0,
                     isVisible = False, opacity = 0\<rparr>
                 else
                   (let sf = camDist / dst;
                        proximityOpacity =
                          (if bid = Some ''sun'' then 1.0
                           else if (case bid of None \<Rightarrow> [] | Some s \<Rightarrow> s) \<in> set TIER_2_IDS
                             then tier2_opacity dst
                           else other_opacity bid dst)
                    in \<lparr>sx = Num (x_screen_ortho * sf), sy = Num (y_screen_ortho * sf),
                         depth = depth_px, scaleFactor = Num sf,
                         isVisible = \<not> proximityOpacity < 0.01, opacity = proximityOpacity\<rparr>)))
        else
          \<lparr>sx = Num (x_screen_ortho * 1), sy = Num (y_screen_ortho * 1), depth = depth_px,
            scaleFactor = Num 1, isVisible = \<not> (1.0::real) < 0.01, opacity = 1.0\<rparr>)"

section \<open>data/constants.ts\<close>

definition MILLISECONDS_PER_DAY :: int where
  "MILLISECONDS_PER_DAY = 86400000"

text \<open>\<open>J2000_DATE.getTime()\<close>, the time value of 2000-01-01T12:00:00Z.\<close>

definition J2000_DATE :: int where
  "J2000_DATE = 946728000000"

section \<open>utils/astronomy.ts\<close>

subsection \<open>Numeric helpers\<close>

text \<open>\<open>new Date(t).getTime()\<close>: the number truncated towards zero.\<close>

definition newDate :: "real \<Rightarrow> int" where
  "newDate t = (if 0 \<le> t then \<lfloor>t\<rfloor> else \<lceil>t\<rceil>)"

text \<open>The remainder operator \<open>%\<close> on numbers: the result has the sign of the dividend.\<close>

definition js_rem :: "real \<Rightarrow> real \<Rightarrow> real" where
  "js_rem a n = a - n * of_int (newDate (a / n))"

text \<open>
  \<open>Math.atan2\<close> on finite arguments. The two zeros of the machine numbers are one real
  number; they only select between \<open>\<pi>\<close> and \<open>-\<pi>\<close>, which \<open>getEclipticLongitude\<close> maps
  to the same longitude.
\<close>

definition atan2 :: "real \<Rightarrow> real \<Rightarrow> real" where
  "atan2 b a =
    (if 0 < a then arctan (b / a)
     else if a < 0 then (if 0 \<le> b then arctan (b / a) + pi else arctan (b / a) - pi)
     else if 0 < b then pi / 2
     else if b < 0 then - (pi / 2)
     else 0)"

definition deg2rad :: "real \<Rightarrow> real" where
  "deg2rad deg = (deg * pi) / 180"

definition DEFAULT_SUN_ANGULAR_RADIUS_DEG :: real where
  "DEFAULT_SUN_ANGULAR_RADIUS_DEG = 0.266"

definition normalizeAngle :: "real \<Rightarrow> real" where
  "normalizeAngle deg = (let res = js_rem deg 360 in if res < 0 then res + 360 else res)"

subsection \<open>Kepler's equation\<close>

text \<open>
  The \<open>for\<close> loop of \<open>solveKepler\<close>: \<open>i\<close> is the loop counter, \<open>E\<close> the current
  iterate; \<open>break\<close> returns the iterate just updated.
\<close>

function kepler_loop :: "real \<Rightarrow> real \<Rightarrow> nat \<Rightarrow> real \<Rightarrow> real" where
  "kepler_loop e M_rad i E =
    (if i < 100 then
       (let deltaM = E - e * sin E - M_rad;
            deltaE = deltaM / (1 - e * cos E);
            E' = E - deltaE
        in if \<bar>deltaE\<bar> < 0.000001 then E' else kepler_loop e M_rad (i + 1) E')
     else E)"
  by pat_completeness auto
termination
  by (relation "measure (\<lambda>(e, M_rad, i, E). 100 - i)") auto

declare kepler_loop.simps [simp del]

definition solveKepler :: "real \<Rightarrow> real \<Rightarrow> real" where
  "solveKepler M e = kepler_loop e (deg2rad M) 0 (deg2rad M)"

text \<open>
  The loop divides by \<open>1 - e cos E\<close>. In a round where this is zero, \<open>deltaE\<close> is an
  infinity or NaN and so is the new \<open>E\<close>; the test \<open>Math.abs(deltaE) < tolerance\<close> is false,
  every later round computes NaN (\<open>Math.sin\<close> of an infinity is NaN), and the value
  returned is NaN, or an infinity when the round was the last one. \<open>kepler_loop_NaN\<close> is
  the same loop and says whether such a round is reached; where it is not, \<open>kepler_loop\<close>
  is the value returned.
\<close>

function kepler_loop_NaN :: "real \<Rightarrow> real \<Rightarrow> nat \<Rightarrow> real \<Rightarrow> bool" where
  "kepler_loop_NaN e M_rad i E =
    (if i < 100 then
       (if 1 - e * cos E = 0 then True
        else
          (let deltaM = E - e * sin E - M_rad;
               deltaE = deltaM / (1 - e * cos E);
               E' = E - deltaE
           in if \<bar>deltaE\<bar> < 0.000001 then False else kepler_loop_NaN e M_rad (i + 1) E'))
     else False)"
  by pat_completeness auto
termination
  by (relation "measure (\<lambda>(e, M_rad, i, E). 100 - i)") auto

declare kepler_loop_NaN.simps [simp del]

definition solveKepler_NaN :: "real \<Rightarrow> real \<Rightarrow> bool" where
  "solveKepler_NaN M e = kepler_loop_NaN e (deg2rad M) 0 (deg2rad M)"



subsection \<open>Positions\<close>

text \<open>
  Method A. The coordinates are NaN, all three, in these cases and in no other:

  \<^item> \<open>a < 0\<close>: \<open>Math.pow(a, 1.5)\<close> is NaN, and with it \<open>n\<close>, \<open>M_curr\<close>, \<open>E\<close> and \<open>r\<close>;

  \<^item> \<open>a = 0\<close>: \<open>Math.pow(a, 1.5)\<close> is 0, so \<open>n\<close> is an infinity or NaN, \<open>M + n * dayDiff\<close>
    is an infinity or NaN, and its remainder \<open>% 360\<close> is NaN;

  \<^item> the solver divides by zero (\<open>solveKepler_NaN\<close>): \<open>Math.cos(E)\<close> is NaN;

  \<^item> \<open>1 - e * e < 0\<close>: \<open>Math.sqrt\<close> of it is NaN, and with it \<open>yv\<close>, \<open>v\<close> and \<open>r\<close>.

  In each of them \<open>r\<close> is NaN, and \<open>x\<close>, \<open>y\<close> and \<open>z\<close> are products with \<open>r\<close>. Otherwise
  every intermediate value is finite, and \<open>Math.pow(a, 1.5)\<close> is \<open>a powr 1.5\<close>.
\<close>

definition calculateKeplerPosition :: "OrbitalElements \<Rightarrow> int \<Rightarrow> real \<Rightarrow> PositionValue" where
  "calculateKeplerPosition els date centralMassMultiplier =
    (if el_a els \<le> 0 then NaNPosition
     else
       (let dayDiff = (of_int date - of_int J2000_DATE) / of_int MILLISECONDS_PER_DAY;
            n = (0.9856076686 * centralMassMultiplier) / (el_a els powr 1.5);
            M_curr = normalizeAngle (el_M els + n * dayDiff)
        in if solveKepler_NaN M_curr (el_e els) \<or> 1 - el_e els * el_e els < 0 then NaNPosition
           else
             (let E = solveKepler M_curr (el_e els);
                  xv = el_a els * (cos E - el_e els);
                  yv = el_a els * (sqrt (1 - el_e els * el_e els) * sin E);
                  v = atan2 yv xv;
                  r = sqrt (xv * xv + yv * yv);
                  i = deg2rad (el_i els);
                  N = deg2rad (el_N els);
                  w = deg2rad (el_w els);
                  u = v + w
              in At \<lparr>px = r * (cos N * cos u - sin N * sin u * cos i),
                     py = r * (sin N * cos u + cos N * sin u * cos i),
                     pz = r * (sin u * sin i)\<rparr>)))"

text \<open>
  Method B calls the astronomy-engine library through the global \<open>Astronomy\<close>, which is
  not part of the repository. It is a parameter here: \<open>None\<close> when the global is
  undefined, otherwise \<open>Some helio\<close>, where \<open>helio body date\<close> is the equatorial vector
  \<open>Astronomy.HelioVector(body, Astronomy.MakeTime(date))\<close>, with finite coordinates, or
  \<open>None\<close> when the call throws.
\<close>

datatype Body = Mercury | Venus | Earth | Mars | Jupiter | Saturn | Uranus | Neptune | Pluto | Moon

type_synonym Astronomy = "(Body \<Rightarrow> int \<Rightarrow> Position option) option"

definition body_of_id :: "string \<Rightarrow> Body option" where
  "body_of_id bid =
    (if bid = ''mercury'' then Some Mercury
     else if bid = ''venus'' then Some Venus
     else if bid = ''earth'' then Some Earth
     else if bid = ''mars'' then Some Mars
     else if bid = ''jupiter'' then Some Jupiter
     else if bid = ''saturn'' then Some Saturn
     else if bid = ''uranus'' then Some Uranus
     else if bid = ''neptune'' then Some Neptune
     else if bid = ''pluto'' then Some Pluto
     else if bid = ''moon'' then Some Moon
     else None)"

definition calculateHighPrecisionPosition :: "Astronomy \<Rightarrow> string \<Rightarrow> int \<Rightarrow> Position option" where
  "calculateHighPrecisionPosition astro bid date =
    (case astro of
       None \<Rightarrow> None
     | Some helio \<Rightarrow>
        (case body_of_id bid of
           None \<Rightarrow> None
         | Some body \<Rightarrow>
            (case helio body date of
               None \<Rightarrow> None
             | Some vec \<Rightarrow>
                (let eps = 23.4392911 * (pi / 180);
                     cosEps = cos eps;
                     sinEps = sin eps;
                     x_ecl = px vec;
                     y_ecl = py vec * cosEps + pz vec * sinEps;
                     z_ecl = - py vec * sinEps + pz vec * cosEps
                 in Some \<lparr>px = x_ecl, py = y_ecl, pz = z_ecl\<rparr>))))"

definition calculateBodyPosition ::
  "Astronomy \<Rightarrow> string \<Rightarrow> OrbitalElements \<Rightarrow> int \<Rightarrow> bool \<Rightarrow> PositionValue" where
  "calculateBodyPosition astro bid els date useHP =
    (if bid = ''sun'' then At \<lparr>px = 0, py = 0, pz = 0\<rparr>
     else
       (case (if useHP then calculateHighPrecisionPosition astro bid date else None) of
          Some hpPos \<Rightarrow> At hpPos
        | None \<Rightarrow> calculateKeplerPosition els date 1.0))"

text \<open>
  Which of the three \<open>return\<close> statements of \<open>calculateBodyPosition\<close> produces the value:
  the same tests, in the same order. Only the last one calls \<open>calculateKeplerPosition\<close>
  and with it \<open>solveKepler\<close>.
\<close>

datatype PositionSource = SunSpecialCase | HighPrecisionEngine | KeplerSolver

definition calculateBodyPosition_source ::
  "Astronomy \<Rightarrow> string \<Rightarrow> OrbitalElements \<Rightarrow> int \<Rightarrow> bool \<Rightarrow> PositionSource" where
  "calculateBodyPosition_source astro bid els date useHP =
    (if bid = ''sun'' then SunSpecialCase
     else
       (case (if useHP then calculateHighPrecisionPosition astro bid date else None) of
          Some hpPos \<Rightarrow> HighPrecisionEngine
        | None \<Rightarrow> KeplerSolver))"

definition getPositionHelper ::
  "Astronomy \<Rightarrow> string \<Rightarrow> int \<Rightarrow> bool \<Rightarrow> PlanetData list \<Rightarrow> PositionValue" where
  "getPositionHelper astro bid date useHP allBodies =
    (if bid = ''sun'' then At \<lparr>px = 0, py = 0, pz = 0\<rparr>
     else
       (case find (\<lambda>b. pd_id b = bid) allBodies of
          None \<Rightarrow> At \<lparr>px = 0, py = 0, pz = 0\<rparr>
        | Some p \<Rightarrow> calculateBodyPosition astro bid (elements p) date useHP))"

text \<open>
  The vector helpers. A difference, a product or a square root with a NaN operand is NaN,
  so the difference of two positions is NaN in every coordinate as soon as one of them
  is, and the magnitude of such a vector is NaN.
\<close>

definition subtractVectors :: "PositionValue \<Rightarrow> PositionValue \<Rightarrow> PositionValue" where
  "subtractVectors a b =
    (case a of
       NaNPosition \<Rightarrow> NaNPosition
     | At p \<Rightarrow>
        (case b of
           NaNPosition \<Rightarrow> NaNPosition
         | At q \<Rightarrow> At \<lparr>px = px p - px q, py = py p - py q, pz = pz p - pz q\<rparr>))"

definition magnitude :: "PositionValue \<Rightarrow> number" where
  "magnitude v =
    (case v of
       NaNPosition \<Rightarrow> NaN
     | At p \<Rightarrow> Num (sqrt (px p * px p + py p * py p + pz p * pz p)))"

text \<open>
  In \<open>angleBetweenVectors3D\<close> the test \<open>mag1 === 0 || mag2 === 0\<close> comes before the
  quotient, and holds for a zero vector whatever the other vector is. After it,
  \<open>Math.min\<close>, \<open>Math.max\<close> and \<open>Math.acos\<close> of NaN are NaN.
\<close>

definition angleBetweenVectors3D :: "PositionValue \<Rightarrow> PositionValue \<Rightarrow> number" where
  "angleBetweenVectors3D v1 v2 =
    (let dot = (case v1 of
                  NaNPosition \<Rightarrow> NaN
                | At p \<Rightarrow>
                   (case v2 of
                      NaNPosition \<Rightarrow> NaN
                    | At q \<Rightarrow> Num (px p * px q + py p * py q + pz p * pz q)));
         mag1 = magnitude v1;
         mag2 = magnitude v2
     in if mag1 = Num 0 \<or> mag2 = Num 0 then Num 0
        else
          (case dot of
             NaN \<Rightarrow> NaN
           | Num d \<Rightarrow>
              (case mag1 of
                 NaN \<Rightarrow> NaN
               | Num m1 \<Rightarrow>
                  (case mag2 of
                     NaN \<Rightarrow> NaN
                   | Num m2 \<Rightarrow>
                      (let cosTheta = max (- 1) (min 1 (d / (m1 * m2)))
                       in Num (arccos cosTheta))))))"

definition getEclipticLongitude :: "PositionValue \<Rightarrow> number" where
  "getEclipticLongitude vec =
    (case vec of
       NaNPosition \<Rightarrow> NaN
     | At p \<Rightarrow>
        (let angle = atan2 (py p) (px p) * (180 / pi)
         in Num (if angle < 0 then angle + 360 else angle)))"

subsection \<open>Event detection\<close>

definition isTransit ::
  "Astronomy \<Rightarrow> string \<Rightarrow> int \<Rightarrow> real \<Rightarrow> bool \<Rightarrow> bool \<Rightarrow> real \<Rightarrow> PlanetData list \<Rightarrow> bool" where
  "isTransit astro planetName date toleranceDeg useHP strictMode solarRadiusDeg allBodies =
    (let posEarth = getPositionHelper astro ''earth'' date useHP allBodies;
         posPlanet = getPositionHelper astro planetName date useHP allBodies;
         posSun = At \<lparr>px = 0, py = 0, pz = 0\<rparr>;
         vecEarthSun = subtractVectors posSun posEarth;
         vecEarthPlanet = subtractVectors posPlanet posEarth;
         angleRad = angleBetweenVectors3D vecEarthSun vecEarthPlanet;
         angleDeg = num_mult angleRad (180 / pi);
         distToSun = magnitude vecEarthSun;
         distToPlanet = magnitude vecEarthPlanet;
         effectiveTolerance = (if strictMode then solarRadiusDeg else toleranceDeg)
     in num_le angleDeg effectiveTolerance \<and> num_lt distToPlanet distToSun)"

text \<open>
  \<open>checkSpecificAlignment\<close> and the alignment branch of \<open>getAlignmentMetric\<close> contain the
  same three steps, written out twice in the source: the longitudes of the targets as seen
  from the Earth, in the order of \<open>targetIds\<close>; the numeric sort; the largest gap between
  neighbours, the gap across 360 degrees included.
\<close>

definition targetLongitudes ::
  "Astronomy \<Rightarrow> int \<Rightarrow> string list \<Rightarrow> bool \<Rightarrow> PlanetData list \<Rightarrow> number list" where
  "targetLongitudes astro date targetIds useHP allBodies =
    (let posEarth = getPositionHelper astro ''earth'' date useHP allBodies
     in map (\<lambda>bid. let posTarget = getPositionHelper astro bid date useHP allBodies;
                       vecRelative = subtractVectors posTarget posEarth
                   in getEclipticLongitude vecRelative) targetIds)"

text \<open>
  \<open>longitudes.sort((a, b) => a - b)\<close>. The sort of the language is stable and puts an
  element behind another only on a positive result of the comparator; a result NaN counts
  as 0. For numbers without NaN this is the ascending order, whatever the engine. With a
  NaN among them the comparator is not consistent and the order is left to the engine;
  \<open>sort_numbers\<close> is the stable insertion sort, in which no element moves across a NaN.
  The examples below with a NaN have equal numbers only, so that every comparison gives 0
  and a stable sort returns the input order.
\<close>

fun insort_number :: "number \<Rightarrow> number list \<Rightarrow> number list" where
  "insort_number x [] = [x]"
| "insort_number x (y # ys) = (if num_lt y x then y # insort_number x ys else x # y # ys)"

definition sort_numbers :: "number list \<Rightarrow> number list" where
  "sort_numbers xs = foldr insort_number xs []"

function maxGap_loop :: "number list \<Rightarrow> nat \<Rightarrow> real \<Rightarrow> real" where
  "maxGap_loop longitudes i maxGap =
    (if int i < int (length longitudes) - 1 then
       (let gap = num_diff (longitudes ! (i + 1)) (longitudes ! i)
        in maxGap_loop longitudes (i + 1) (raise_to maxGap gap))
     else maxGap)"
  by pat_completeness auto
termination
  by (relation "measure (\<lambda>(longitudes, i, maxGap). length longitudes - i)") auto

declare maxGap_loop.simps [simp del]

text \<open>Called with at least two longitudes, so both indexed reads are in range.\<close>

definition largestGap :: "number list \<Rightarrow> real" where
  "largestGap longitudes =
    (let maxGap = maxGap_loop longitudes 0 0;
         wrapGap = num_diff (Num 360)
                     (num_diff (longitudes ! (length longitudes - 1)) (longitudes ! 0))
     in raise_to maxGap wrapGap)"

definition checkSpecificAlignment ::
  "Astronomy \<Rightarrow> int \<Rightarrow> string list option \<Rightarrow> real \<Rightarrow> bool \<Rightarrow> PlanetData list \<Rightarrow> bool" where
  "checkSpecificAlignment astro date targetIds toleranceDeg useHP allBodies =
    (case targetIds of
       None \<Rightarrow> False
     | Some ids \<Rightarrow>
        if length ids < 2 then False
        else
          (let longitudes = sort_numbers (targetLongitudes astro date ids useHP allBodies);
               maxGap = largestGap longitudes;
               span = 360 - maxGap
           in span \<le> toleranceDeg))"

subsection \<open>Event window\<close>

text \<open>The closure \<open>check\<close> of \<open>calculateEventDuration\<close>.\<close>

definition duration_check ::
  "Astronomy \<Rightarrow> EventType \<Rightarrow> string list \<Rightarrow> real \<Rightarrow> bool \<Rightarrow> bool \<Rightarrow> real \<Rightarrow> PlanetData list
    \<Rightarrow> int \<Rightarrow> bool" where
  "duration_check astro type targetIds toleranceDeg useHP strictMode solarRadiusDeg allBodies t =
    (if type = TRANSIT then
       list_all (\<lambda>bid. isTransit astro bid t toleranceDeg useHP strictMode solarRadiusDeg allBodies)
         targetIds
     else checkSpecificAlignment astro t (Some targetIds) toleranceDeg useHP allBodies)"

text \<open>The two \<open>while (true)\<close> loops, with \<open>STEP = MILLISECONDS_PER_DAY\<close>.\<close>

function expand_start :: "(int \<Rightarrow> bool) \<Rightarrow> int \<Rightarrow> int \<Rightarrow> int" where
  "expand_start check center start =
    (let nextT = start - MILLISECONDS_PER_DAY
     in if check nextT then
          (if center - nextT > 3650 * MILLISECONDS_PER_DAY then nextT
           else expand_start check center nextT)
        else start)"
  by pat_completeness auto
termination
  by (relation "measure (\<lambda>(check, center, start).
        nat (3651 * MILLISECONDS_PER_DAY - (center - start)))")
     (auto simp: MILLISECONDS_PER_DAY_def)

function expand_end :: "(int \<Rightarrow> bool) \<Rightarrow> int \<Rightarrow> int \<Rightarrow> int" where
  "expand_end check center end' =
    (let nextT = end' + MILLISECONDS_PER_DAY
     in if check nextT then
          (if nextT - center > 3650 * MILLISECONDS_PER_DAY then nextT
           else expand_end check center nextT)
        else end')"
  by pat_completeness auto
termination
  by (relation "measure (\<lambda>(check, center, end').
        nat (3651 * MILLISECONDS_PER_DAY - (end' - center)))")
     (auto simp: MILLISECONDS_PER_DAY_def)

declare expand_start.simps [simp del] expand_end.simps [simp del]

definition calculateEventDuration ::
  "Astronomy \<Rightarrow> int \<Rightarrow> EventType \<Rightarrow> string list \<Rightarrow> real \<Rightarrow> bool \<Rightarrow> bool \<Rightarrow> real
    \<Rightarrow> PlanetData list \<Rightarrow> int \<times> int" where
  "calculateEventDuration astro centerDate type targetIds toleranceDeg useHP strictMode
      solarRadiusDeg allBodies =
    (let check = duration_check astro type targetIds toleranceDeg useHP strictMode
                   solarRadiusDeg allBodies;
         start = expand_start check centerDate centerDate;
         end' = expand_end check centerDate centerDate
     in (start, end'))"

subsection \<open>Optimal time\<close>

text \<open>
  The metric is a finite number even where a position is NaN: \<open>maxDiff\<close> and \<open>maxGap\<close>
  start at 0 and are only assigned a value that compared greater.
\<close>

definition getAlignmentMetric ::
  "Astronomy \<Rightarrow> int \<Rightarrow> EventType \<Rightarrow> string list \<Rightarrow> bool \<Rightarrow> PlanetData list \<Rightarrow> real" where
  "getAlignmentMetric astro date type targetIds useHP allBodies =
    (let posEarth = getPositionHelper astro ''earth'' date useHP allBodies
     in if type = TRANSIT then
          (let posSun = At \<lparr>px = 0, py = 0, pz = 0\<rparr>;
               vecEarthSun = subtractVectors posSun posEarth
           in foldl (\<lambda>maxDiff bid.
                 let posP = getPositionHelper astro bid date useHP allBodies;
                     vecEarthP = subtractVectors posP posEarth;
                     angleRad = angleBetweenVectors3D vecEarthSun vecEarthP;
                     deg = num_mult angleRad (180 / pi)
                 in raise_to maxDiff deg) 0 targetIds)
        else if length targetIds < 2 then 0
        else
          (let longitudes = sort_numbers (targetLongitudes astro date targetIds useHP allBodies);
               maxGap = largestGap longitudes
           in 360 - maxGap))"

record OptimalTime =
  opt_time :: real
  opt_angle :: real

text \<open>
  The coarse loop (\<open>i\<close> from 0 to \<open>steps = 20\<close>, both included) and the ternary loop
  (ten rounds) of \<open>findOptimalEventTime\<close>; \<open>metric\<close> is \<open>getAlignmentMetric\<close> at
  \<open>new Date(t)\<close>. The state of either loop is \<open>bestTime\<close> and \<open>minMetric\<close>, and the
  bracket for the second.
\<close>

function coarse_loop :: "(real \<Rightarrow> real) \<Rightarrow> real \<Rightarrow> real \<Rightarrow> nat \<Rightarrow> real \<Rightarrow> real \<Rightarrow> real \<times> real" where
  "coarse_loop metric start stepSize i bestTime minMetric =
    (if i \<le> 20 then
       (let t = start + of_nat i * stepSize;
            m = metric t
        in if m < minMetric then coarse_loop metric start stepSize (i + 1) t m
           else coarse_loop metric start stepSize (i + 1) bestTime minMetric)
     else (bestTime, minMetric))"
  by pat_completeness auto
termination
  by (relation "measure (\<lambda>(metric, start, stepSize, i, bestTime, minMetric). 21 - i)") auto

function ternary_loop ::
  "(real \<Rightarrow> real) \<Rightarrow> nat \<Rightarrow> real \<Rightarrow> real \<Rightarrow> real \<Rightarrow> real \<Rightarrow> real \<times> real" where
  "ternary_loop metric i left right bestTime minMetric =
    (if i < 10 then
       (let m1 = left + (right - left) / 3;
            m2 = right - (right - left) / 3;
            v1 = metric m1;
            v2 = metric m2
        in if v1 < v2 then
             (if v1 < minMetric then ternary_loop metric (i + 1) left m2 m1 v1
              else ternary_loop metric (i + 1) left m2 bestTime minMetric)
           else
             (if v2 < minMetric then ternary_loop metric (i + 1) m1 right m2 v2
              else ternary_loop metric (i + 1) m1 right bestTime minMetric))
     else (bestTime, minMetric))"
  by pat_completeness auto
termination
  by (relation "measure (\<lambda>(metric, i, left, right, bestTime, minMetric). 10 - i)") auto

declare coarse_loop.simps [simp del] ternary_loop.simps [simp del]

text \<open>\<open>strictMode\<close> and \<open>solarRadiusDeg\<close> are parameters the function never reads.\<close>

definition findOptimalEventTime ::
  "Astronomy \<Rightarrow> real \<Rightarrow> real \<Rightarrow> EventType \<Rightarrow> string list \<Rightarrow> bool \<Rightarrow> bool \<Rightarrow> real
    \<Rightarrow> PlanetData list \<Rightarrow> OptimalTime" where
  "findOptimalEventTime astro start end' type targetIds useHP strictMode solarRadiusDeg allBodies =
    (let metric = (\<lambda>t. getAlignmentMetric astro (newDate t) type targetIds useHP allBodies);
         stepSize = (end' - start) / 20;
         (bestTime, minMetric) = coarse_loop metric start stepSize 0 start 999;
         left = max start (bestTime - stepSize);
         right = min end' (bestTime + stepSize);
         (bestTime', minMetric') = ternary_loop metric 0 left right bestTime minMetric
     in \<lparr>opt_time = bestTime', opt_angle = minMetric'\<rparr>)"

text \<open>
  The times at which the two loops evaluate the metric, in the order of evaluation: the
  21 coarse samples, then the two probes of each ternary round, the bracket moving as in
  \<open>ternary_loop\<close>.
\<close>

definition coarse_samples :: "real \<Rightarrow> real \<Rightarrow> real list" where
  "coarse_samples start stepSize = map (\<lambda>i. start + of_nat i * stepSize) [0..<21]"

function ternary_probes :: "(real \<Rightarrow> real) \<Rightarrow> nat \<Rightarrow> real \<Rightarrow> real \<Rightarrow> real list" where
  "ternary_probes metric i left right =
    (if i < 10 then
       (let m1 = left + (right - left) / 3;
            m2 = right - (right - left) / 3;
            v1 = metric m1;
            v2 = metric m2
        in if v1 < v2 then m1 # m2 # ternary_probes metric (i + 1) left m2
           else m1 # m2 # ternary_probes metric (i + 1) m1 right)
     else [])"
  by pat_completeness auto
termination
  by (relation "measure (\<lambda>(metric, i, left, right). 10 - i)") auto

declare ternary_probes.simps [simp del]

definition probe_times ::
  "Astronomy \<Rightarrow> real \<Rightarrow> real \<Rightarrow> EventType \<Rightarrow> string list \<Rightarrow> bool \<Rightarrow> PlanetData list \<Rightarrow> real list" where
  "probe_times astro start end' type targetIds useHP allBodies =
    (let metric = (\<lambda>t. getAlignmentMetric astro (newDate t) type targetIds useHP allBodies);
         stepSize = (end' - start) / 20;
         (bestTime, minMetric) = coarse_loop metric start stepSize 0 start 999;
         left = max start (bestTime - stepSize);
         right = min end' (bestTime + stepSize)
     in coarse_samples start stepSize @ ternary_probes metric 0 left right)"

section \<open>hooks/useSimulation.ts\<close>

text \<open>
  The hook's React state and refs are one record, passed to a callback and returned
  updated. A callback sees the state of the render that created it, which is taken to be
  the current one. It runs to its end first: the updater functions it gives to
  \<open>setSearchState\<close> are queued and run, in the order of the calls, at the next render,
  which is taken to come before the next callback. The record returned is the state after
  that render. So a ref that an updater writes (\<open>calcTargetRef\<close> in
  \<open>runCalculationBatch\<close>) still has its old value wherever the callback itself reads it.
  Wall-clock statistics (\<open>elapsedTime\<close>, \<open>calculationDuration\<close>), the frame bookkeeping of
  \<open>requestAnimationFrame\<close> and the timer that clears the highlight are left out. An absent
  \<open>strictMode\<close> acts as \<open>false\<close> wherever it is read, and is \<open>False\<close> here.

  The arrays of target ids are shared and changed in place: \<open>startCalculation\<close> puts one
  array into \<open>calcTargetRef.current.ids\<close> and into \<open>searchState.targetIds\<close>, and \<open>sort()\<close>
  orders the array it is called on. The record therefore has a store \<open>targetArrays\<close>, from
  the reference of an array to its contents, and the two fields hold references. A found
  event holds the contents of its array: the array is sorted when the event is built, and
  \<open>sort()\<close> is the only operation that ever changes it.
\<close>

type_synonym ArrayRef = nat

record SearchState =
  active :: bool
  ss_type :: "EventType option"
  ss_targetIds :: "ArrayRef option"
  status :: string
  speed :: SearchSpeed
  activeTolerance :: real
  activeSolarRadius :: "real option"
  ss_strictMode :: bool
  isCalculating :: bool
  calculationResult :: "int option"
  currentScanDate :: int
  resultStartDate :: "int option"
  resultEndDate :: "int option"
  resultOptimalDate :: "real option"
  resultMinAngle :: "real option"
  continuousPaused :: bool
  foundEvents :: "FoundEvent list"
  searchStartTime :: int
  completed :: bool

record CalcTarget =
  ct_type :: EventType
  ct_ids :: ArrayRef
  ct_strictMode :: bool
  ct_tolerance :: real
  ct_solarRadius :: real

text \<open>
  \<open>lastEventGuardRef\<close> holds key, start and end; \<open>batchPending\<close> says that
  \<open>calculationTimeoutRef\<close> holds a timer that will run \<open>runCalculationBatch\<close>.
\<close>

record Simulation =
  currentDate :: int
  isPlaying :: bool
  speedMultiplier :: real
  timeDirection :: int
  highlightedAlignment :: "string list option"
  searchState :: SearchState
  lastEventGuardRef :: "(string \<times> int \<times> int) option"
  calcDateRef :: int
  calcTargetRef :: "CalcTarget option"
  batchPending :: bool
  targetArrays :: "ArrayRef \<Rightarrow> string list"

definition BASE_SPEED_DAYS_PER_SEC :: real where
  "BASE_SPEED_DAYS_PER_SEC = 7"

definition typeName :: "EventType \<Rightarrow> string" where
  "typeName type = (case type of TRANSIT \<Rightarrow> ''TRANSIT'' | PLANETARY_ALIGNMENT \<Rightarrow> ''PLANETARY_ALIGNMENT'')"

fun join :: "string list \<Rightarrow> string" where
  "join [] = []"
| "join [a] = a"
| "join (a # b # rest) = a @ '','' @ join (b # rest)"

text \<open>The guard key, for targets already sorted.\<close>

definition eventKey :: "EventType \<Rightarrow> string list \<Rightarrow> string" where
  "eventKey type sortedIds = typeName type @ ''-'' @ join sortedIds"

definition inGuard :: "(string \<times> int \<times> int) option \<Rightarrow> string \<Rightarrow> int \<Rightarrow> bool" where
  "inGuard guard currentKey t =
    (case guard of
       None \<Rightarrow> False
     | Some (key, start, end') \<Rightarrow> key = currentKey \<and> t \<ge> start \<and> t \<le> end')"

text \<open>The detection test inside both scanning loops.\<close>

definition searchHit ::
  "Astronomy \<Rightarrow> EventType \<Rightarrow> string list \<Rightarrow> real \<Rightarrow> bool \<Rightarrow> bool \<Rightarrow> real \<Rightarrow> PlanetData list
    \<Rightarrow> int \<Rightarrow> bool" where
  "searchHit astro type targets tolerance useHP strictMode solarRadius allBodies t =
    (case type of
       TRANSIT \<Rightarrow>
         length targets > 0 \<and>
         list_all (\<lambda>bid. isTransit astro bid t tolerance useHP strictMode solarRadius allBodies) targets
     | PLANETARY_ALIGNMENT \<Rightarrow>
         length targets \<ge> 2 \<and>
         checkSpecificAlignment astro t (Some targets) tolerance useHP allBodies)"

text \<open>
  The scanning loop of \<open>animate\<close> (\<open>iterations\<close> rounds) and of \<open>runCalculationBatch\<close>
  (\<open>BATCH_SIZE\<close> rounds): step first, skip a date inside the guarded window, stop at the
  first hit. It returns the last date reached and \<open>found\<close>.
\<close>

fun scan_loop :: "(int \<Rightarrow> bool) \<Rightarrow> (int \<Rightarrow> bool) \<Rightarrow> int \<Rightarrow> nat \<Rightarrow> int \<Rightarrow> int \<times> bool" where
  "scan_loop guarded hit step 0 t = (t, False)"
| "scan_loop guarded hit step (Suc n) t =
    (let t' = t + step
     in if guarded t' then scan_loop guarded hit step n t'
        else if hit t' then (t', True)
        else scan_loop guarded hit step n t')"

text \<open>The record both callbacks build once a date is found.\<close>

definition newFoundEvent ::
  "Astronomy \<Rightarrow> string \<Rightarrow> int \<Rightarrow> EventType \<Rightarrow> string list \<Rightarrow> real \<Rightarrow> bool \<Rightarrow> bool \<Rightarrow> real
    \<Rightarrow> PlanetData list \<Rightarrow> FoundEvent" where
  "newFoundEvent astro newId foundDate type targets tolerance useHP strictMode solarRadius allBodies =
    (let (dstart, dend) = calculateEventDuration astro foundDate type targets tolerance useHP
                            strictMode solarRadius allBodies;
         optimal = findOptimalEventTime astro (of_int dstart) (of_int dend) type targets useHP
                     strictMode solarRadius allBodies
     in \<lparr>ev_id = newId, ev_type = type, ev_targetIds = targets, startDate = dstart,
         endDate = dend, optimalDate = opt_time optimal, minAngle = opt_angle optimal,
         ev_strictMode = strictMode\<rparr>)"

definition capReached :: "FoundEvent list \<Rightarrow> int \<Rightarrow> int \<Rightarrow> bool" where
  "capReached updatedEvents dend startTime =
    (let yearsSearched = \<bar>of_int dend - of_int startTime\<bar> / (of_int MILLISECONDS_PER_DAY * 365 :: real)
     in length updatedEvents \<ge> 50 \<or> yearsSearched \<ge> 2000)"

text \<open>
  The searching branch of \<open>animate\<close>, for the search type \<open>type\<close>, in four named
  parts: the targets (the array of the state, or a new empty array, sorted in place), the
  solar radius in force, the scanning loop, and the rest. \<open>yearLabel\<close> renders the year of
  a date (\<open>getFullYear\<close> depends on the host's time zone) and \<open>newId\<close> is the id drawn from
  the clock and \<open>Math.random\<close>.
\<close>

definition frameTargets :: "Simulation \<Rightarrow> string list" where
  "frameTargets s =
    sort (case ss_targetIds (searchState s) of None \<Rightarrow> [] | Some r \<Rightarrow> targetArrays s r)"

definition strictRadius :: "SearchState \<Rightarrow> real" where
  "strictRadius ss =
    (case activeSolarRadius ss of
       None \<Rightarrow> DEFAULT_SUN_ANGULAR_RADIUS_DEG
     | Some r \<Rightarrow> if r = 0 then DEFAULT_SUN_ANGULAR_RADIUS_DEG else r)"

definition frameScan ::
  "Astronomy \<Rightarrow> AppSettings \<Rightarrow> PlanetData list \<Rightarrow> EventType \<Rightarrow> Simulation \<Rightarrow> int \<times> bool" where
  "frameScan astro settings celestialBodies type s =
    (let ss = searchState s;
         iterations = (case speed ss of low \<Rightarrow> 4 | medium \<Rightarrow> 15 | high \<Rightarrow> 30);
         currentTargets = frameTargets s;
         currentKey = eventKey type currentTargets;
         step = timeDirection s * MILLISECONDS_PER_DAY;
         hit = searchHit astro type currentTargets (activeTolerance ss) (useHighPrecision settings)
                 (ss_strictMode ss) (strictRadius ss) celestialBodies
     in scan_loop (inGuard (lastEventGuardRef s) currentKey) hit step iterations (currentDate s))"

definition searchFrame ::
  "Astronomy \<Rightarrow> AppSettings \<Rightarrow> PlanetData list \<Rightarrow> (int \<Rightarrow> string) \<Rightarrow> string \<Rightarrow> EventType
    \<Rightarrow> Simulation \<Rightarrow> Simulation" where
  "searchFrame astro settings celestialBodies yearLabel newId type s =
    (let ss = searchState s;
         currentTargets = frameTargets s;
         currentKey = eventKey type currentTargets;
         (tempDate, found) = frameScan astro settings celestialBodies type s;
         ss1 = ss\<lparr>status := ''Searching... '' @ yearLabel tempDate\<rparr>;
         s1 = s\<lparr>currentDate := tempDate,
                targetArrays := (case ss_targetIds ss of
                                   None \<Rightarrow> targetArrays s
                                 | Some r \<Rightarrow> (targetArrays s)(r := currentTargets)),
                searchState := ss1\<rparr>
     in if found then
          (let newEvent = newFoundEvent astro newId tempDate type currentTargets (activeTolerance ss)
                            (useHighPrecision settings) (ss_strictMode ss) (strictRadius ss)
                            celestialBodies;
               dstart = startDate newEvent;
               dend = endDate newEvent;
               s2 = s1\<lparr>lastEventGuardRef := Some (currentKey, dstart, dend)\<rparr>
           in if continuousIteration settings then
                (let updatedEvents = foundEvents ss1 @ [newEvent];
                     cursor = (if timeDirection s = 1 then dend else dstart);
                     ss2 = (if capReached updatedEvents dend (searchStartTime ss1)
                            then ss1\<lparr>active := False, foundEvents := updatedEvents,
                                     completed := True, status := ''Completed'',
                                     currentScanDate := cursor\<rparr>
                            else ss1\<lparr>foundEvents := updatedEvents,
                                     status := ''Found event. Continuing...'',
                                     currentScanDate := cursor\<rparr>)
                 in s2\<lparr>searchState := ss2,
                        currentDate := (if timeDirection s = 1 then dend + MILLISECONDS_PER_DAY
                                        else dstart - MILLISECONDS_PER_DAY)\<rparr>)
              else
                s2\<lparr>isPlaying := False, speedMultiplier := 1,
                    searchState := ss1\<lparr>active := False, status := [], speed := medium,
                                       resultStartDate := Some dstart, resultEndDate := Some dend,
                                       resultOptimalDate := Some (optimalDate newEvent),
                                       resultMinAngle := Some (minAngle newEvent),
                                       calculationResult := Some tempDate,
                                       foundEvents := foundEvents ss1 @ [newEvent]\<rparr>,
                    highlightedAlignment :=
                      Some (if type = TRANSIT then ''earth'' # currentTargets @ [''sun'']
                            else ''earth'' # currentTargets)\<rparr>)
        else s1)"

text \<open>One frame of \<open>animate\<close> after the first; \<open>deltaTime\<close> is the frame time in seconds.\<close>

definition animate ::
  "Astronomy \<Rightarrow> AppSettings \<Rightarrow> PlanetData list \<Rightarrow> (int \<Rightarrow> string) \<Rightarrow> string \<Rightarrow> real
    \<Rightarrow> Simulation \<Rightarrow> Simulation" where
  "animate astro settings celestialBodies yearLabel newId deltaTime s =
    (let ss = searchState s
     in if isCalculating ss then s
        else
          (case (if active ss then ss_type ss else None) of
             Some type \<Rightarrow>
               if continuousIteration settings \<and> continuousPaused ss then s
               else searchFrame astro settings celestialBodies yearLabel newId type s
           | None \<Rightarrow>
               if isPlaying s then
                 (let daysToAdd = deltaTime * BASE_SPEED_DAYS_PER_SEC * speedMultiplier s
                                    * of_int (timeDirection s)
                  in s\<lparr>currentDate := newDate (of_int (currentDate s)
                                          + daysToAdd * of_int MILLISECONDS_PER_DAY),
                       highlightedAlignment :=
                         (if highlightedAlignment s \<noteq> None \<and> \<not> showEventHighlights settings
                          then None else highlightedAlignment s)\<rparr>)
               else s))"

text \<open>
  One run of \<open>runCalculationBatch\<close>, \<open>BATCH_SIZE = 200\<close>, with the render that follows
  it. The array \<open>ids\<close> of the target is sorted in place when the key is built.

  In the continuous branch the callback gives \<open>setSearchState\<close> the updater that tests
  the two caps, and then tests \<open>calcTargetRef.current\<close> itself. The updater has not run
  at that point, so the ref is still the target found non-null at the top of the
  callback: the callback moves \<open>calcDateRef\<close> to one day past the window and schedules
  the next run, whether or not a cap is reached. At the render the updater appends the
  event and, on a cap, clears \<open>calcTargetRef\<close> and marks the state completed and no longer
  calculating. A run that finds the ref cleared returns at its first statement.
\<close>

definition batchScan ::
  "Astronomy \<Rightarrow> AppSettings \<Rightarrow> PlanetData list \<Rightarrow> CalcTarget \<Rightarrow> Simulation \<Rightarrow> int \<times> bool" where
  "batchScan astro settings celestialBodies target s =
    (let type = ct_type target;
         ids = sort (targetArrays s (ct_ids target));
         currentKey = eventKey type ids;
         step = timeDirection s * MILLISECONDS_PER_DAY;
         hit = searchHit astro type ids (ct_tolerance target) (useHighPrecision settings)
                 (ct_strictMode target) (ct_solarRadius target) celestialBodies
     in scan_loop (inGuard (lastEventGuardRef s) currentKey) hit step 200 (calcDateRef s))"

definition runCalculationBatch ::
  "Astronomy \<Rightarrow> AppSettings \<Rightarrow> PlanetData list \<Rightarrow> string \<Rightarrow> Simulation \<Rightarrow> Simulation" where
  "runCalculationBatch astro settings celestialBodies newId s =
    (case calcTargetRef s of
       None \<Rightarrow> s\<lparr>batchPending := False\<rparr>
     | Some target \<Rightarrow>
        (let type = ct_type target;
             ids = sort (targetArrays s (ct_ids target));
             currentKey = eventKey type ids;
             (currentTs, found) = batchScan astro settings celestialBodies target s;
             ss = searchState s;
             ss1 = (if continuousPaused ss then ss else ss\<lparr>currentScanDate := currentTs\<rparr>);
             s1 = s\<lparr>calcDateRef := currentTs,
                    targetArrays := (targetArrays s)(ct_ids target := ids),
                    searchState := ss1, batchPending := False\<rparr>
         in if found then
              (let newEvent = newFoundEvent astro newId currentTs type ids (ct_tolerance target)
                                (useHighPrecision settings) (ct_strictMode target)
                                (ct_solarRadius target) celestialBodies;
                   dstart = startDate newEvent;
                   dend = endDate newEvent;
                   s2 = s1\<lparr>lastEventGuardRef := Some (currentKey, dstart, dend)\<rparr>
               in if continuousIteration settings then
                    (let s3 = s2\<lparr>calcDateRef := (if timeDirection s = 1
                                                   then dend + MILLISECONDS_PER_DAY
                                                   else dstart - MILLISECONDS_PER_DAY),
                                 batchPending := True\<rparr>;
                         updatedEvents = foundEvents ss1 @ [newEvent]
                     in if capReached updatedEvents dend (searchStartTime ss1) then
                          s3\<lparr>calcTargetRef := None,
                              searchState := ss1\<lparr>foundEvents := updatedEvents,
                                                 isCalculating := False, completed := True\<rparr>\<rparr>
                        else
                          s3\<lparr>searchState := ss1\<lparr>foundEvents := updatedEvents,
                                                 currentScanDate :=
                                                   (if timeDirection s = 1 then dend else dstart)\<rparr>\<rparr>)
                  else
                    s2\<lparr>searchState := ss1\<lparr>isCalculating := False,
                                           calculationResult := Some currentTs,
                                           ss_targetIds := Some (ct_ids target),
                                           resultStartDate := Some dstart,
                                           resultEndDate := Some dend,
                                           resultOptimalDate := Some (optimalDate newEvent),
                                           resultMinAngle := Some (minAngle newEvent),
                                           foundEvents := foundEvents ss1 @ [newEvent]\<rparr>,
                        calcTargetRef := None\<rparr>)
            else s1\<lparr>batchPending := \<not> (continuousPaused ss1 \<or> \<not> isCalculating ss1)\<rparr>))"


section \<open>Example inputs\<close>

text \<open>Concrete settings, elements and ephemerides at which the statements below are evaluated.\<close>

definition cam :: AppSettings where
  "cam = \<lparr>viewTilt = 30, viewYaw = 45, enablePerspective = True, enableProximitySim = True,
          useHighPrecision = False, continuousIteration = False, showEventHighlights = False\<rparr>"

definition fixedEphemeris :: Astronomy where
  "fixedEphemeris = Some (\<lambda>body date. Some \<lparr>px = 1, py = 0, pz = 0\<rparr>)"

definition zeroAxisElements :: OrbitalElements where
  "zeroAxisElements = \<lparr>el_N = 0, el_i = 0, el_w = 0, el_a = 0, el_e = 0, el_M = 0\<rparr>"

definition sampleElements :: OrbitalElements where
  "sampleElements = \<lparr>el_N = 0, el_i = 0, el_w = 0, el_a = 1, el_e = 0, el_M = 0\<rparr>"

definition innerCatalogue :: "PlanetData list" where
  "innerCatalogue =
    [\<lparr>pd_id = ''earth'', elements = sampleElements\<rparr>,
     \<lparr>pd_id = ''venus'', elements = sampleElements\<rparr>,
     \<lparr>pd_id = ''mars'', elements = sampleElements\<rparr>]"


text \<open>
  An ephemeris with all bodies on the x-axis: the Earth at -1, Venus at 0.7, and Mars at
  1.5 at the J2000 date and at -1.5 at any other date.
\<close>

definition conjunctionEphemeris :: Astronomy where
  "conjunctionEphemeris = Some (\<lambda>body date.
     case body of
       Earth \<Rightarrow> Some \<lparr>px = - 1, py = 0, pz = 0\<rparr>
     | Venus \<Rightarrow> Some \<lparr>px = 0.7, py = 0, pz = 0\<rparr>
     | Mars \<Rightarrow> Some (if date = J2000_DATE then \<lparr>px = 1.5, py = 0, pz = 0\<rparr>
                     else \<lparr>px = - 1.5, py = 0, pz = 0\<rparr>)
     | _ \<Rightarrow> None)"



text \<open>
  Settings with the ephemeris in use, the state before a search (one day before the J2000
  date, scanning forward, no array allocated), and the state after \<open>startSearch\<close> for a
  transit of Venus with the default tolerance of 1 degree; the array of its target ids has
  the reference 0.
\<close>

definition hpSettings :: AppSettings where
  "hpSettings = \<lparr>viewTilt = 90, viewYaw = 0, enablePerspective = False, enableProximitySim = False,
          useHighPrecision = True, continuousIteration = False, showEventHighlights = True\<rparr>"

definition idleSearchState :: SearchState where
  "idleSearchState = \<lparr>active = False, ss_type = None, ss_targetIds = None, status = [],
     speed = medium, activeTolerance = 1, activeSolarRadius = Some DEFAULT_SUN_ANGULAR_RADIUS_DEG,
     ss_strictMode = False, isCalculating = False, calculationResult = None,
     currentScanDate = J2000_DATE - MILLISECONDS_PER_DAY, resultStartDate = None,
     resultEndDate = None, resultOptimalDate = None, resultMinAngle = None,
     continuousPaused = False, foundEvents = [],
     searchStartTime = J2000_DATE - MILLISECONDS_PER_DAY, completed = False\<rparr>"

definition noArrays :: "ArrayRef \<Rightarrow> string list" where
  "noArrays r = []"

definition idleSimulation :: Simulation where
  "idleSimulation = \<lparr>currentDate = J2000_DATE - MILLISECONDS_PER_DAY, isPlaying = False,
     speedMultiplier = 1, timeDirection = 1, highlightedAlignment = None,
     searchState = idleSearchState, lastEventGuardRef = None, calcDateRef = 0,
     calcTargetRef = None, batchPending = False, targetArrays = noArrays\<rparr>"

definition transitSearch :: Simulation where
  "transitSearch = idleSimulation\<lparr>targetArrays := noArrays(0 := [''venus'']),
     searchState := idleSearchState\<lparr>active := True,
       ss_type := Some TRANSIT, ss_targetIds := Some 0,
       status := ''Starting search...''\<rparr>\<rparr>"

text \<open>The same for an alignment of Venus and Mars within 10 degrees.\<close>

definition alignmentSearch :: Simulation where
  "alignmentSearch = idleSimulation\<lparr>targetArrays := noArrays(0 := [''mars'', ''venus'']),
     searchState := idleSearchState\<lparr>active := True,
       ss_type := Some PLANETARY_ALIGNMENT, ss_targetIds := Some 0,
       activeTolerance := 10, status := ''Starting search...''\<rparr>\<rparr>"


definition conjunctionEvent :: FoundEvent where
  "conjunctionEvent = newFoundEvent conjunctionEphemeris ''e1'' J2000_DATE PLANETARY_ALIGNMENT
     [''mars'', ''venus''] 10 True False DEFAULT_SUN_ANGULAR_RADIUS_DEG innerCatalogue"

text \<open>The same settings with continuous iteration, and a year label that prints nothing.\<close>

definition contSettings :: AppSettings where
  "contSettings = hpSettings\<lparr>continuousIteration := True\<rparr>"

definition blankLabel :: "int \<Rightarrow> string" where
  "blankLabel d = []"

text \<open>
  One frame of a continuous search with no ephemeris and an empty catalogue, where no
  transit is ever detected, and the transit search for Venus after 48667 such frames at
  medium speed (15 days a frame).
\<close>

definition emptySkyFrame :: "Simulation \<Rightarrow> Simulation" where
  "emptySkyFrame = animate None contSettings [] blankLabel ''e1'' 0"

definition longScan :: Simulation where
  "longScan = (emptySkyFrame ^^ 48667) transitSearch"

text \<open>
  The state after \<open>startCalculation\<close> for the alignment of Venus and Mars, given in the
  order Venus, Mars: one array, with the reference 0, is the \<open>ids\<close> of the target and the
  \<open>targetIds\<close> of the state. The second state is the same with 49 events in the history.
\<close>

definition alignmentTarget :: CalcTarget where
  "alignmentTarget = \<lparr>ct_type = PLANETARY_ALIGNMENT, ct_ids = 0, ct_strictMode = False,
     ct_tolerance = 10, ct_solarRadius = 0\<rparr>"

definition alignmentCalculation :: Simulation where
  "alignmentCalculation = idleSimulation\<lparr>calcDateRef := J2000_DATE - MILLISECONDS_PER_DAY,
     calcTargetRef := Some alignmentTarget,
     batchPending := True,
     targetArrays := noArrays(0 := [''venus'', ''mars'']),
     searchState := idleSearchState\<lparr>ss_type := Some PLANETARY_ALIGNMENT,
       ss_targetIds := Some 0, isCalculating := True,
       activeTolerance := 10, activeSolarRadius := Some 0, status := ''Calculating...''\<rparr>\<rparr>"

definition longHistory :: Simulation where
  "longHistory = alignmentCalculation\<lparr>searchState :=
     (searchState alignmentCalculation)\<lparr>foundEvents := replicate 49 conjunctionEvent\<rparr>\<rparr>"

section \<open>Projection\<close>




text \<open>
  C3, as stated: under perspective projection every body of the gas-giant tier has opacity
  exactly 1. It fails for Jupiter at the pivot with zoom factor 20: the camera distance is
  100, the point is in front of the camera, and the opacity is 0.3.
\<close>

theorem gas_giant_opacity_counterexample:
  "enablePerspective cam
   \<and> 0 < camera_dist origin 65 cam 20 origin
   \<and> ''jupiter'' \<in> set TIER_2_IDS
   \<and> opacity (project3D origin 65 cam 20 (Some ''jupiter'') origin) = 0.3"
  by (simp add: project3D_def cam_def origin_def camera_dist_def effectiveCameraDist_def
      depth_pixels_def BASE_PROXIMITY_CONST_def TIER_2_IDS_def tier2_opacity_def Let_def)

lemma project3D_front:
  assumes "enablePerspective settings"
      and "zoomK \<noteq> 0"
      and "0 < camera_dist pos scale settings zoomK c"
  shows "opacity (project3D pos scale settings zoomK bid c)
           = (if bid = Some ''sun'' then 1
              else if (case bid of None \<Rightarrow> [] | Some s \<Rightarrow> s) \<in> set TIER_2_IDS
                then tier2_opacity (camera_dist pos scale settings zoomK c)
              else other_opacity bid (camera_dist pos scale settings zoomK c))"
    and "isVisible (project3D pos scale settings zoomK bid c)
           = (\<not> opacity (project3D pos scale settings zoomK bid c) < 0.01)"
  using assms
  by (simp_all add: project3D_def camera_dist_def depth_pixels_def Let_def)

lemma tier2_opacity_range: "0.3 \<le> tier2_opacity d \<and> tier2_opacity d \<le> 1"
  by (simp add: tier2_opacity_def Let_def)

lemma other_opacity_range:
  "0 \<le> other_opacity bid d \<and> other_opacity bid d \<le> 1
   \<and> (d \<le> (if bid = Some ''mercury'' \<or> bid = Some ''venus'' then 50 else 100) \<longrightarrow>
        other_opacity bid d = 0)"
  by (simp add: other_opacity_def Let_def)

lemma sun_not_tier2: "''sun'' \<notin> set TIER_2_IDS"
  by (simp add: TIER_2_IDS_def)

text \<open>
  C3, amended: under perspective projection, for a nonzero zoom factor and a point in
  front of the camera, the opacity is exactly 1 for the id \<open>sun\<close>; for a body of the
  gas-giant tier it is the near-plane fade raised to the floor 0.3, so it stays between
  0.3 and 1 and the body is never hidden; for every other body it is the near-plane fade
  itself, between 0 and 1, and 0 once the camera distance is at most the near plane (50
  for Mercury and Venus, 100 otherwise).
\<close>

theorem proximity_opacity:
  assumes "enablePerspective settings"
      and "zoomK \<noteq> 0"
      and "0 < camera_dist pos scale settings zoomK c"
  shows "(bid = Some ''sun'' \<longrightarrow> opacity (project3D pos scale settings zoomK bid c) = 1)
       \<and> ((\<exists>b. bid = Some b \<and> b \<in> set TIER_2_IDS) \<longrightarrow>
            opacity (project3D pos scale settings zoomK bid c)
              = tier2_opacity (camera_dist pos scale settings zoomK c)
          \<and> 0.3 \<le> opacity (project3D pos scale settings zoomK bid c)
          \<and> opacity (project3D pos scale settings zoomK bid c) \<le> 1
          \<and> isVisible (project3D pos scale settings zoomK bid c))
       \<and> (bid \<noteq> Some ''sun'' \<and> (case bid of None \<Rightarrow> [] | Some s \<Rightarrow> s) \<notin> set TIER_2_IDS \<longrightarrow>
            opacity (project3D pos scale settings zoomK bid c)
              = other_opacity bid (camera_dist pos scale settings zoomK c)
          \<and> 0 \<le> opacity (project3D pos scale settings zoomK bid c)
          \<and> opacity (project3D pos scale settings zoomK bid c) \<le> 1
          \<and> (camera_dist pos scale settings zoomK c
                \<le> (if bid = Some ''mercury'' \<or> bid = Some ''venus'' then 50 else 100) \<longrightarrow>
               opacity (project3D pos scale settings zoomK bid c) = 0))"
proof -
  let ?d = "camera_dist pos scale settings zoomK c"
  let ?o = "opacity (project3D pos scale settings zoomK bid c)"
  note front = project3D_front [OF assms(1,2,3), of bid]
  have sun: "bid = Some ''sun'' \<longrightarrow> ?o = 1"
  proof
    assume "bid = Some ''sun''"
    with front(1) show "?o = 1" by simp
  qed
  have tier: "(\<exists>b. bid = Some b \<and> b \<in> set TIER_2_IDS) \<longrightarrow>
      ?o = tier2_opacity ?d \<and> 0.3 \<le> ?o \<and> ?o \<le> 1
      \<and> isVisible (project3D pos scale settings zoomK bid c)"
  proof
    assume "\<exists>b. bid = Some b \<and> b \<in> set TIER_2_IDS"
    then obtain b where b: "bid = Some b" "b \<in> set TIER_2_IDS" by blast
    then have "b \<noteq> ''sun''" using sun_not_tier2 by blast
    with b front(1) have eq: "?o = tier2_opacity ?d" by simp
    moreover have "\<not> ?o < 0.01"
      using eq tier2_opacity_range [of ?d] by simp
    ultimately show "?o = tier2_opacity ?d \<and> 0.3 \<le> ?o \<and> ?o \<le> 1
      \<and> isVisible (project3D pos scale settings zoomK bid c)"
      using tier2_opacity_range [of ?d] front(2) by simp
  qed
  have other: "bid \<noteq> Some ''sun'' \<and> (case bid of None \<Rightarrow> [] | Some s \<Rightarrow> s) \<notin> set TIER_2_IDS \<longrightarrow>
      ?o = other_opacity bid ?d \<and> 0 \<le> ?o \<and> ?o \<le> 1
      \<and> (?d \<le> (if bid = Some ''mercury'' \<or> bid = Some ''venus'' then 50 else 100) \<longrightarrow> ?o = 0)"
  proof
    assume "bid \<noteq> Some ''sun'' \<and> (case bid of None \<Rightarrow> [] | Some s \<Rightarrow> s) \<notin> set TIER_2_IDS"
    with front(1) have "?o = other_opacity bid ?d" by simp
    then show "?o = other_opacity bid ?d \<and> 0 \<le> ?o \<and> ?o \<le> 1
      \<and> (?d \<le> (if bid = Some ''mercury'' \<or> bid = Some ''venus'' then 50 else 100) \<longrightarrow> ?o = 0)"
      using other_opacity_range [of bid ?d] by simp
  qed
  from sun tier other show ?thesis by blast
qed

theorem proximity_opacity_witness:
  "enablePerspective cam
   \<and> (20::real) \<noteq> 0
   \<and> 0 < camera_dist origin 65 cam 20 origin
   \<and> opacity (project3D origin 65 cam 20 (Some ''sun'') origin) = 1
   \<and> 0.3 \<le> opacity (project3D origin 65 cam 20 (Some ''saturn'') origin)
   \<and> opacity (project3D origin 65 cam 20 (Some ''earth'') origin)
       = other_opacity (Some ''earth'') (camera_dist origin 65 cam 20 origin)"
proof -
  have h1: "enablePerspective cam"
    by (simp add: cam_def)
  have h2: "0 < camera_dist origin 65 cam 20 origin"
    by (simp add: cam_def origin_def camera_dist_def effectiveCameraDist_def depth_pixels_def
        BASE_PROXIMITY_CONST_def)
  have h3: "(20::real) \<noteq> 0" by simp
  show ?thesis
    using h1 h2 h3 proximity_opacity [OF h1 h3 h2, of "Some ''sun''"]
      proximity_opacity [OF h1 h3 h2, of "Some ''saturn''"]
      proximity_opacity [OF h1 h3 h2, of "Some ''earth''"]
    by (simp add: TIER_2_IDS_def)
qed

section \<open>Positions and Kepler's equation\<close>


lemma kepler_denominator_nonzero:
  fixes e :: real
  assumes "\<bar>e\<bar> < 1"
  shows "1 - e * cos E \<noteq> 0"
proof -
  have "\<bar>e * cos E\<bar> = \<bar>e\<bar> * \<bar>cos E\<bar>"
    by (rule abs_mult)
  also have "\<dots> \<le> \<bar>e\<bar> * 1"
    by (intro mult_left_mono) auto
  finally have "\<bar>e * cos E\<bar> < 1"
    using assms by simp
  then show ?thesis by auto
qed

lemma kepler_loop_NaN_never:
  "\<bar>e\<bar> < 1 \<Longrightarrow> \<not> kepler_loop_NaN e Mr i E"
proof (induction e Mr i E rule: kepler_loop_NaN.induct)
  case (1 e Mr i E)
  have nz: "1 - e * cos E \<noteq> 0"
    using "1.prems" by (rule kepler_denominator_nonzero)
  show ?case
    using "1.IH" "1.prems" nz
    by (subst kepler_loop_NaN.simps) (auto simp: Let_def)
qed

text \<open>
  Elements with \<open>a > 0\<close> and \<open>|e| < 1\<close> give a position with finite coordinates; a
  semi-major axis that is not positive gives NaN coordinates.
\<close>

lemma calculateKeplerPosition_finite:
  assumes "0 < el_a els" "\<bar>el_e els\<bar> < 1"
  shows "\<exists>p. calculateKeplerPosition els date m = At p"
proof -
  have "el_e els * el_e els = \<bar>el_e els\<bar> * \<bar>el_e els\<bar>"
    by simp
  also have "\<dots> \<le> 1 * 1"
    using assms(2) by (intro mult_mono) auto
  finally have "\<not> 1 - el_e els * el_e els < 0"
    by simp
  then show ?thesis
    using assms(1) kepler_loop_NaN_never [OF assms(2)]
    by (simp add: calculateKeplerPosition_def solveKepler_NaN_def Let_def)
qed




text \<open>
  C7, as stated: with semi-major axis 0 the position is the origin, returned without the
  solver, for every precision setting. It fails for the id \<open>mars\<close> with \<open>a = 0\<close>: with
  high precision the position is the ephemeris vector (1, 0, 0), and without it the value
  comes from the return statement that runs the Kepler solver, and its coordinates are
  NaN.
\<close>

theorem zero_axis_counterexample:
  "el_a zeroAxisElements = 0
   \<and> calculateBodyPosition fixedEphemeris ''mars'' zeroAxisElements J2000_DATE True
       = At \<lparr>px = 1, py = 0, pz = 0\<rparr>
   \<and> calculateBodyPosition fixedEphemeris ''mars'' zeroAxisElements J2000_DATE True \<noteq> At origin
   \<and> calculateBodyPosition_source None ''mars'' zeroAxisElements J2000_DATE False = KeplerSolver
   \<and> calculateBodyPosition None ''mars'' zeroAxisElements J2000_DATE False = NaNPosition"
  by (simp add: zeroAxisElements_def calculateBodyPosition_def calculateBodyPosition_source_def
      calculateHighPrecisionPosition_def fixedEphemeris_def body_of_id_def origin_def
      calculateKeplerPosition_def)

text \<open>
  C7, amended: the special case is on the body id. For the id \<open>sun\<close> (whose catalogue
  elements have \<open>a = 0\<close>) the position is the origin for every date, every set of
  elements and every precision setting, from the first return statement, before the
  ephemeris or the Kepler solver is reached.
\<close>

theorem sun_position_special_case:
  "calculateBodyPosition astro ''sun'' els date useHP = At origin
   \<and> calculateBodyPosition_source astro ''sun'' els date useHP = SunSpecialCase"
  by (simp add: calculateBodyPosition_def calculateBodyPosition_source_def origin_def)





section \<open>Event detection\<close>

text \<open>
  C10. \<open>checkSpecificAlignment\<close> is false when \<open>targetIds\<close> is absent or has fewer than two
  elements, for every date, tolerance, precision flag and catalogue.
\<close>

theorem alignment_needs_two_targets:
  assumes "targetIds = None \<or> (\<exists>ids. targetIds = Some ids \<and> length ids < 2)"
  shows "\<not> checkSpecificAlignment astro date targetIds toleranceDeg useHP allBodies"
  using assms by (auto simp: checkSpecificAlignment_def)

theorem alignment_needs_two_targets_witness:
  "\<not> checkSpecificAlignment None J2000_DATE (Some [''venus'']) 10 False []
   \<and> \<not> checkSpecificAlignment None J2000_DATE None 10 False []"
  using alignment_needs_two_targets [of "Some [''venus'']" None J2000_DATE 10 False "[]"]
        alignment_needs_two_targets [of None None J2000_DATE 10 False "[]"]
  by simp



text \<open>
  Where no element compares less than another (equal numbers, with or without NaN among
  them), the sort returns the input order.
\<close>

lemma insort_number_front:
  assumes "\<And>y. y \<in> set ys \<Longrightarrow> \<not> num_lt y x"
  shows "insort_number x ys = x # ys"
  using assms by (cases ys) simp_all

lemma sort_numbers_input_order:
  assumes "\<And>x y. x \<in> set xs \<Longrightarrow> y \<in> set xs \<Longrightarrow> \<not> num_lt x y"
  shows "sort_numbers xs = xs"
  using assms
proof (induction xs)
  case Nil
  then show ?case by (simp add: sort_numbers_def)
next
  case (Cons x xs)
  have "sort_numbers (x # xs) = insort_number x (sort_numbers xs)"
    by (simp add: sort_numbers_def)
  also have "sort_numbers xs = xs"
    using Cons.prems by (intro Cons.IH) simp_all
  also have "insort_number x xs = x # xs"
    using Cons.prems by (intro insort_number_front) simp_all
  finally show ?case .
qed




text \<open>
  The longitudes are numbers, none of them NaN, for a catalogue in which every body has
  \<open>a > 0\<close> and \<open>|e| < 1\<close>.
\<close>

lemma getPositionHelper_finite:
  assumes "\<forall>b \<in> set allBodies. 0 < el_a (elements b) \<and> \<bar>el_e (elements b)\<bar> < 1"
  shows "\<exists>p. getPositionHelper astro bid date useHP allBodies = At p"
proof (cases "find (\<lambda>b. pd_id b = bid) allBodies")
  case None
  then show ?thesis by (simp add: getPositionHelper_def)
next
  case (Some b)
  then have "b \<in> set allBodies"
    by (auto simp: find_Some_iff)
  with assms have "0 < el_a (elements b)" "\<bar>el_e (elements b)\<bar> < 1" by auto
  from calculateKeplerPosition_finite [OF this]
  obtain p where "calculateKeplerPosition (elements b) date 1 = At p" by blast
  with Some show ?thesis
    by (auto simp: getPositionHelper_def calculateBodyPosition_def split: option.splits)
qed

lemma targetLongitudes_finite:
  assumes "\<forall>b \<in> set allBodies. 0 < el_a (elements b) \<and> \<bar>el_e (elements b)\<bar> < 1"
  shows "NaN \<notin> set (targetLongitudes astro date ids useHP allBodies)"
proof -
  have ne: "getEclipticLongitude (subtractVectors (getPositionHelper astro bid date useHP allBodies)
          (getPositionHelper astro ''earth'' date useHP allBodies)) \<noteq> NaN" for bid
  proof -
    obtain p q where "getPositionHelper astro bid date useHP allBodies = At p"
      "getPositionHelper astro ''earth'' date useHP allBodies = At q"
      using getPositionHelper_finite [OF assms] by meson
    then show ?thesis
      by (simp add: subtractVectors_def getEclipticLongitude_def Let_def)
  qed
  show ?thesis
  proof
    assume "NaN \<in> set (targetLongitudes astro date ids useHP allBodies)"
    then obtain bid where
      "NaN = getEclipticLongitude (subtractVectors (getPositionHelper astro bid date useHP allBodies)
          (getPositionHelper astro ''earth'' date useHP allBodies))"
      by (auto simp: targetLongitudes_def Let_def)
    with ne [of bid] show False by simp
  qed
qed




lemma conjunction_positions:
  "getPositionHelper conjunctionEphemeris ''earth'' t True innerCatalogue = At \<lparr>px = - 1, py = 0, pz = 0\<rparr>"
  "getPositionHelper conjunctionEphemeris ''venus'' t True innerCatalogue = At \<lparr>px = 0.7, py = 0, pz = 0\<rparr>"
  "getPositionHelper conjunctionEphemeris ''mars'' t True innerCatalogue
     = (if t = J2000_DATE then At \<lparr>px = 1.5, py = 0, pz = 0\<rparr> else At \<lparr>px = - 1.5, py = 0, pz = 0\<rparr>)"
  by (simp_all add: getPositionHelper_def innerCatalogue_def calculateBodyPosition_def
      calculateHighPrecisionPosition_def conjunctionEphemeris_def body_of_id_def Let_def)

lemma conjunction_longitudes:
  "targetLongitudes conjunctionEphemeris t [''venus'', ''mars''] True innerCatalogue
     = (if t = J2000_DATE then [Num 0, Num 0] else [Num 0, Num 180])"
  "targetLongitudes conjunctionEphemeris t [''mars'', ''venus''] True innerCatalogue
     = (if t = J2000_DATE then [Num 0, Num 0] else [Num 180, Num 0])"
  by (simp_all add: targetLongitudes_def conjunction_positions subtractVectors_def
      getEclipticLongitude_def atan2_def Let_def)




section \<open>Event window\<close>

lemma expand_start_spec:
  assumes "check start"
  shows "expand_start check center start \<le> start
       \<and> check (expand_start check center start)
       \<and> (center - expand_start check center start \<le> 3650 * MILLISECONDS_PER_DAY \<longrightarrow>
            \<not> check (expand_start check center start - MILLISECONDS_PER_DAY))
       \<and> (center - start \<le> 3650 * MILLISECONDS_PER_DAY \<longrightarrow>
            center - expand_start check center start \<le> 3651 * MILLISECONDS_PER_DAY)"
  using assms
proof (induction check center start rule: expand_start.induct)
  case (1 check center start)
  let ?n = "start - MILLISECONDS_PER_DAY"
  show ?case
  proof (cases "check ?n")
    case False
    then have "expand_start check center start = start"
      by (subst expand_start.simps) (simp add: Let_def)
    with False "1.prems" show ?thesis
      by (simp add: MILLISECONDS_PER_DAY_def)
  next
    case True
    show ?thesis
    proof (cases "center - ?n > 3650 * MILLISECONDS_PER_DAY")
      case cap: True
      then have "expand_start check center start = ?n"
        using True by (subst expand_start.simps) (simp add: Let_def)
      with True cap show ?thesis
        by (simp add: MILLISECONDS_PER_DAY_def)
    next
      case nocap: False
      have eq: "expand_start check center start = expand_start check center ?n"
        using True nocap by (subst expand_start.simps) (simp add: Let_def)
      have "expand_start check center ?n \<le> ?n
       \<and> check (expand_start check center ?n)
       \<and> (center - expand_start check center ?n \<le> 3650 * MILLISECONDS_PER_DAY \<longrightarrow>
            \<not> check (expand_start check center ?n - MILLISECONDS_PER_DAY))
       \<and> (center - ?n \<le> 3650 * MILLISECONDS_PER_DAY \<longrightarrow>
            center - expand_start check center ?n \<le> 3651 * MILLISECONDS_PER_DAY)"
        using "1.IH" [OF refl True _ True] nocap by simp
      with eq nocap show ?thesis
        by (simp add: MILLISECONDS_PER_DAY_def)
    qed
  qed
qed

lemma expand_end_spec:
  assumes "check end'"
  shows "end' \<le> expand_end check center end'
       \<and> check (expand_end check center end')
       \<and> (expand_end check center end' - center \<le> 3650 * MILLISECONDS_PER_DAY \<longrightarrow>
            \<not> check (expand_end check center end' + MILLISECONDS_PER_DAY))
       \<and> (end' - center \<le> 3650 * MILLISECONDS_PER_DAY \<longrightarrow>
            expand_end check center end' - center \<le> 3651 * MILLISECONDS_PER_DAY)"
  using assms
proof (induction check center end' rule: expand_end.induct)
  case (1 check center end')
  let ?n = "end' + MILLISECONDS_PER_DAY"
  show ?case
  proof (cases "check ?n")
    case False
    then have "expand_end check center end' = end'"
      by (subst expand_end.simps) (simp add: Let_def)
    with False "1.prems" show ?thesis
      by (simp add: MILLISECONDS_PER_DAY_def)
  next
    case True
    show ?thesis
    proof (cases "?n - center > 3650 * MILLISECONDS_PER_DAY")
      case cap: True
      then have "expand_end check center end' = ?n"
        using True by (subst expand_end.simps) (simp add: Let_def)
      with True cap show ?thesis
        by (simp add: MILLISECONDS_PER_DAY_def)
    next
      case nocap: False
      have eq: "expand_end check center end' = expand_end check center ?n"
        using True nocap by (subst expand_end.simps) (simp add: Let_def)
      have "?n \<le> expand_end check center ?n
       \<and> check (expand_end check center ?n)
       \<and> (expand_end check center ?n - center \<le> 3650 * MILLISECONDS_PER_DAY \<longrightarrow>
            \<not> check (expand_end check center ?n + MILLISECONDS_PER_DAY))
       \<and> (?n - center \<le> 3650 * MILLISECONDS_PER_DAY \<longrightarrow>
            expand_end check center ?n - center \<le> 3651 * MILLISECONDS_PER_DAY)"
        using "1.IH" [OF refl True _ True] nocap by simp
      with eq nocap show ?thesis
        by (simp add: MILLISECONDS_PER_DAY_def)
    qed
  qed
qed

lemma conjunction_check:
  "duration_check conjunctionEphemeris PLANETARY_ALIGNMENT [''venus'', ''mars''] 10 True strictMode
     r innerCatalogue t = (t = J2000_DATE)"
  by (cases "t = J2000_DATE")
     (simp_all add: duration_check_def checkSpecificAlignment_def conjunction_longitudes
        sort_numbers_def largestGap_def maxGap_loop.simps Let_def)


text \<open>
  C4. From a centre date at which the predicate holds, \<open>calculateEventDuration\<close> returns a
  window with \<open>start \<le> center \<le> end\<close>; the predicate holds at both ends; it fails one day
  before the start unless the cap was hit on that side (the start is then more than 3650
  days before the centre), and one day after the end unless the cap was hit there. Either
  loop is a total function, and the window ends at most 3651 days from the centre.
\<close>

theorem calculateEventDuration_window:
  assumes "duration_check astro type targetIds toleranceDeg useHP strictMode solarRadiusDeg
             allBodies center"
  shows "let check = duration_check astro type targetIds toleranceDeg useHP strictMode
                       solarRadiusDeg allBodies;
             window = calculateEventDuration astro center type targetIds toleranceDeg useHP
                        strictMode solarRadiusDeg allBodies;
             start = fst window;
             end' = snd window
         in start \<le> center \<and> center \<le> end'
          \<and> check start \<and> check end'
          \<and> (center - start \<le> 3650 * MILLISECONDS_PER_DAY \<longrightarrow>
               \<not> check (start - MILLISECONDS_PER_DAY))
          \<and> (end' - center \<le> 3650 * MILLISECONDS_PER_DAY \<longrightarrow>
               \<not> check (end' + MILLISECONDS_PER_DAY))
          \<and> center - start \<le> 3651 * MILLISECONDS_PER_DAY
          \<and> end' - center \<le> 3651 * MILLISECONDS_PER_DAY"
proof -
  let ?check = "duration_check astro type targetIds toleranceDeg useHP strictMode
                  solarRadiusDeg allBodies"
  show ?thesis
    using expand_start_spec [of ?check center center] expand_end_spec [of ?check center center]
      assms
    by (simp add: calculateEventDuration_def Let_def MILLISECONDS_PER_DAY_def)
qed

theorem calculateEventDuration_window_witness:
  "duration_check conjunctionEphemeris PLANETARY_ALIGNMENT [''venus'', ''mars''] 10 True False
     DEFAULT_SUN_ANGULAR_RADIUS_DEG innerCatalogue J2000_DATE
   \<and> calculateEventDuration conjunctionEphemeris J2000_DATE PLANETARY_ALIGNMENT
        [''venus'', ''mars''] 10 True False DEFAULT_SUN_ANGULAR_RADIUS_DEG innerCatalogue = (J2000_DATE, J2000_DATE)
   \<and> \<not> duration_check conjunctionEphemeris PLANETARY_ALIGNMENT [''venus'', ''mars''] 10 True False
        DEFAULT_SUN_ANGULAR_RADIUS_DEG innerCatalogue (J2000_DATE - MILLISECONDS_PER_DAY)
   \<and> \<not> duration_check conjunctionEphemeris PLANETARY_ALIGNMENT [''venus'', ''mars''] 10 True False
        DEFAULT_SUN_ANGULAR_RADIUS_DEG innerCatalogue (J2000_DATE + MILLISECONDS_PER_DAY)"
proof -
  have h: "duration_check conjunctionEphemeris PLANETARY_ALIGNMENT [''venus'', ''mars''] 10 True
     False DEFAULT_SUN_ANGULAR_RADIUS_DEG innerCatalogue J2000_DATE"
    by (simp add: conjunction_check)
  show ?thesis
    using h calculateEventDuration_window [OF h]
    by (simp add: conjunction_check Let_def prod_eq_iff MILLISECONDS_PER_DAY_def)
qed

section \<open>Optimal time\<close>

lemma angleBetweenVectors3D_range:
  assumes "angleBetweenVectors3D v1 v2 = Num a"
  shows "0 \<le> a \<and> a \<le> pi"
proof -
  have "0 \<le> arccos (max (- 1) (min 1 q)) \<and> arccos (max (- 1) (min 1 q)) \<le> pi" for q :: real
    by (intro conjI arccos_lbound arccos_ubound) auto
  then show ?thesis
    using assms
    by (auto simp: angleBetweenVectors3D_def Let_def split: if_splits number.splits)
qed

lemma raise_to_ge: "m \<le> raise_to m v"
  by (cases v) simp_all

lemma raise_to_le:
  assumes "m \<le> c" "\<And>x. v = Num x \<Longrightarrow> x \<le> c"
  shows "raise_to m v \<le> c"
  using assms by (cases v) simp_all

lemma maxGap_loop_ge: "maxGap \<le> maxGap_loop longitudes i maxGap"
proof (induction longitudes i maxGap rule: maxGap_loop.induct)
  case (1 longitudes i maxGap)
  show ?case
  proof (cases "int i < int (length longitudes) - 1")
    case False
    then show ?thesis by (subst maxGap_loop.simps) simp
  next
    case True
    let ?gap = "num_diff (longitudes ! (i + 1)) (longitudes ! i)"
    have "maxGap \<le> raise_to maxGap ?gap" by (rule raise_to_ge)
    also have "\<dots> \<le> maxGap_loop longitudes (i + 1) (raise_to maxGap ?gap)"
      using "1.IH" [OF True refl] by simp
    also have "\<dots> = maxGap_loop longitudes i maxGap"
      using True by (subst (2) maxGap_loop.simps) (simp add: Let_def)
    finally show ?thesis .
  qed
qed

lemma largestGap_nonneg: "0 \<le> largestGap longitudes"
proof -
  have "0 \<le> maxGap_loop longitudes 0 0" by (rule maxGap_loop_ge)
  also have "\<dots> \<le> largestGap longitudes"
    unfolding largestGap_def Let_def by (rule raise_to_ge)
  finally show ?thesis .
qed

lemma foldl_raise_le:
  fixes f :: "'a \<Rightarrow> number"
  assumes "\<And>b x. b \<in> set xs \<Longrightarrow> f b = Num x \<Longrightarrow> x \<le> c" "a \<le> c"
  shows "foldl (\<lambda>m b. raise_to m (f b)) a xs \<le> c"
  using assms
proof (induction xs arbitrary: a)
  case Nil
  then show ?case by simp
next
  case (Cons b xs)
  have "raise_to a (f b) \<le> c"
    using Cons.prems(2) Cons.prems(1) [of b] by (intro raise_to_le) simp_all
  moreover have "x \<le> c" if "b' \<in> set xs" "f b' = Num x" for b' x
    using Cons.prems(1) [of b' x] that by simp
  ultimately have "foldl (\<lambda>m b. raise_to m (f b)) (raise_to a (f b)) xs \<le> c"
    by (intro Cons.IH)
  then show ?case by simp
qed

lemma angle_degrees_le:
  assumes "num_mult (angleBetweenVectors3D v1 v2) (180 / pi) = Num x"
  shows "0 \<le> x \<and> x \<le> 180"
proof -
  obtain a where a: "angleBetweenVectors3D v1 v2 = Num a" "x = a * (180 / pi)"
    using assms by (cases "angleBetweenVectors3D v1 v2") simp_all
  from angleBetweenVectors3D_range [OF a(1)] have r: "0 \<le> a" "a \<le> pi" by simp_all
  have "a * (180 / pi) \<le> pi * (180 / pi)"
    using r(2) by (intro mult_right_mono) auto
  then show ?thesis
    using r(1) a(2) by simp
qed

lemma getAlignmentMetric_le:
  "getAlignmentMetric astro date type targetIds useHP allBodies \<le> 360"
proof (cases "type = TRANSIT")
  case True
  have "x \<le> 360" if "num_mult (angleBetweenVectors3D v1 v2) (180 / pi) = Num x" for v1 v2 x
    using angle_degrees_le [OF that] by simp
  then show ?thesis
    using True by (simp add: getAlignmentMetric_def Let_def foldl_raise_le)
next
  case False
  then show ?thesis
    using largestGap_nonneg by (simp add: getAlignmentMetric_def Let_def)
qed

lemma coarse_loop_spec:
  assumes "coarse_loop metric start stepSize i bestTime minMetric = (bt, mm)"
  shows "mm \<le> minMetric
       \<and> (\<forall>j. i \<le> j \<and> j \<le> 20 \<longrightarrow> mm \<le> metric (start + of_nat j * stepSize))
       \<and> ((bt = bestTime \<and> mm = minMetric)
          \<or> (\<exists>j. i \<le> j \<and> j \<le> 20 \<and> bt = start + of_nat j * stepSize \<and> mm = metric bt))"
  using assms
proof (induction metric start stepSize i bestTime minMetric rule: coarse_loop.induct)
  case (1 metric start stepSize i bestTime minMetric)
  show ?case
  proof (cases "i \<le> 20")
    case False
    then have "coarse_loop metric start stepSize i bestTime minMetric = (bestTime, minMetric)"
      by (subst coarse_loop.simps) simp
    with "1.prems" False show ?thesis by auto
  next
    case True
    let ?t = "start + of_nat i * stepSize"
    have later: "mm \<le> metric (start + of_nat j * stepSize)"
      if "mm \<le> metric ?t" "\<forall>j. i + 1 \<le> j \<and> j \<le> 20 \<longrightarrow> mm \<le> metric (start + of_nat j * stepSize)"
        "i \<le> j" "j \<le> 20" for j
      using that by (cases "j = i") auto
    show ?thesis
    proof (cases "metric ?t < minMetric")
      case less: True
      have eq: "coarse_loop metric start stepSize (i + 1) ?t (metric ?t) = (bt, mm)"
        using "1.prems" True less by (subst (asm) coarse_loop.simps) (simp add: Let_def)
      from "1.IH"(1) [OF True refl refl less eq]
      have ih: "mm \<le> metric ?t"
        "\<forall>j. i + 1 \<le> j \<and> j \<le> 20 \<longrightarrow> mm \<le> metric (start + of_nat j * stepSize)"
        "(bt = ?t \<and> mm = metric ?t)
          \<or> (\<exists>j. i + 1 \<le> j \<and> j \<le> 20 \<and> bt = start + of_nat j * stepSize \<and> mm = metric bt)"
        by auto
      have att: "\<exists>j. i \<le> j \<and> j \<le> 20 \<and> bt = start + of_nat j * stepSize \<and> mm = metric bt"
        using ih(3) True by (metis add_leD1 order_refl)
      show ?thesis
        using ih(1) less later [OF ih(1) ih(2)] att by auto
    next
      case geq: False
      have eq: "coarse_loop metric start stepSize (i + 1) bestTime minMetric = (bt, mm)"
        using "1.prems" True geq by (subst (asm) coarse_loop.simps) (simp add: Let_def)
      from "1.IH"(2) [OF True refl refl geq eq]
      have ih: "mm \<le> minMetric"
        "\<forall>j. i + 1 \<le> j \<and> j \<le> 20 \<longrightarrow> mm \<le> metric (start + of_nat j * stepSize)"
        "(bt = bestTime \<and> mm = minMetric)
          \<or> (\<exists>j. i + 1 \<le> j \<and> j \<le> 20 \<and> bt = start + of_nat j * stepSize \<and> mm = metric bt)"
        by auto
      have here: "mm \<le> metric ?t" using ih(1) geq by simp
      have att: "(bt = bestTime \<and> mm = minMetric)
          \<or> (\<exists>j. i \<le> j \<and> j \<le> 20 \<and> bt = start + of_nat j * stepSize \<and> mm = metric bt)"
        using ih(3) by (metis add_leD1)
      show ?thesis
        using ih(1) later [OF here ih(2)] att by auto
    qed
  qed
qed

lemma ternary_loop_spec:
  assumes "ternary_loop metric i left right bestTime minMetric = (bt, mm)"
  shows "mm \<le> minMetric
       \<and> (\<forall>t \<in> set (ternary_probes metric i left right). mm \<le> metric t)
       \<and> ((bt = bestTime \<and> mm = minMetric)
          \<or> (bt \<in> set (ternary_probes metric i left right) \<and> mm = metric bt))"
  using assms
proof (induction metric i left right bestTime minMetric rule: ternary_loop.induct)
  case (1 metric i left right bestTime minMetric)
  show ?case
  proof (cases "i < 10")
    case False
    have "ternary_loop metric i left right bestTime minMetric = (bestTime, minMetric)"
      using False by (subst ternary_loop.simps) simp
    moreover have "ternary_probes metric i left right = []"
      using False by (subst ternary_probes.simps) simp
    ultimately show ?thesis using "1.prems" by auto
  next
    case True
    let ?m1 = "left + (right - left) / 3"
    let ?m2 = "right - (right - left) / 3"
    show ?thesis
    proof (cases "metric ?m1 < metric ?m2")
      case lt: True
      have probes: "ternary_probes metric i left right
                  = ?m1 # ?m2 # ternary_probes metric (i + 1) left ?m2"
        using True lt by (subst ternary_probes.simps) (simp add: Let_def)
      show ?thesis
      proof (cases "metric ?m1 < minMetric")
        case upd: True
        have eq: "ternary_loop metric (i + 1) left ?m2 ?m1 (metric ?m1) = (bt, mm)"
          using "1.prems" True lt upd by (subst (asm) ternary_loop.simps) (simp add: Let_def)
        from "1.IH"(1) [OF True refl refl refl refl lt upd eq]
        show ?thesis using probes lt upd by auto
      next
        case keep: False
        have eq: "ternary_loop metric (i + 1) left ?m2 bestTime minMetric = (bt, mm)"
          using "1.prems" True lt keep by (subst (asm) ternary_loop.simps) (simp add: Let_def)
        from "1.IH"(2) [OF True refl refl refl refl lt keep eq]
        show ?thesis using probes lt keep by auto
      qed
    next
      case ge: False
      have probes: "ternary_probes metric i left right
                  = ?m1 # ?m2 # ternary_probes metric (i + 1) ?m1 right"
        using True ge by (subst ternary_probes.simps) (simp add: Let_def)
      show ?thesis
      proof (cases "metric ?m2 < minMetric")
        case upd: True
        have eq: "ternary_loop metric (i + 1) ?m1 right ?m2 (metric ?m2) = (bt, mm)"
          using "1.prems" True ge upd by (subst (asm) ternary_loop.simps) (simp add: Let_def)
        from "1.IH"(3) [OF True refl refl refl refl ge upd eq]
        show ?thesis using probes ge upd by auto
      next
        case keep: False
        have eq: "ternary_loop metric (i + 1) ?m1 right bestTime minMetric = (bt, mm)"
          using "1.prems" True ge keep by (subst (asm) ternary_loop.simps) (simp add: Let_def)
        from "1.IH"(4) [OF True refl refl refl refl ge keep eq]
        show ?thesis using probes ge keep by auto
      qed
    qed
  qed
qed

lemma ternary_probes_range:
  assumes "left \<le> right"
  shows "\<forall>t \<in> set (ternary_probes metric i left right). left \<le> t \<and> t \<le> right"
  using assms
proof (induction metric i left right rule: ternary_probes.induct)
  case (1 metric i left right)
  show ?case
  proof (cases "i < 10")
    case False
    then show ?thesis by (subst ternary_probes.simps) simp
  next
    case True
    define m1 where "m1 = left + (right - left) / 3"
    define m2 where "m2 = right - (right - left) / 3"
    have m: "left \<le> m1" "m1 \<le> m2" "m2 \<le> right"
      using "1.prems" unfolding m1_def m2_def by (simp_all add: field_simps)
    show ?thesis
    proof (cases "metric m1 < metric m2")
      case lt: True
      have probes: "ternary_probes metric i left right
                  = m1 # m2 # ternary_probes metric (i + 1) left m2"
        using True lt unfolding m1_def m2_def
        by (subst ternary_probes.simps) (simp add: Let_def)
      have "left \<le> m2" using m by linarith
      have ih: "\<forall>t \<in> set (ternary_probes metric (i + 1) left m2). left \<le> t \<and> t \<le> m2"
        using "1.IH"(1) [OF True refl refl refl refl] lt \<open>left \<le> m2\<close>
        unfolding m1_def m2_def by blast
      show ?thesis
      proof
        fix t assume "t \<in> set (ternary_probes metric i left right)"
        then consider "t = m1" | "t = m2" | "t \<in> set (ternary_probes metric (i + 1) left m2)"
          unfolding probes by auto
        then show "left \<le> t \<and> t \<le> right"
        proof cases
          case 3
          then have "left \<le> t \<and> t \<le> m2" using ih by blast
          then show ?thesis using m by linarith
        qed (use m in linarith)+
      qed
    next
      case ge: False
      have probes: "ternary_probes metric i left right
                  = m1 # m2 # ternary_probes metric (i + 1) m1 right"
        using True ge unfolding m1_def m2_def
        by (subst ternary_probes.simps) (simp add: Let_def)
      have "m1 \<le> right" using m by linarith
      have ih: "\<forall>t \<in> set (ternary_probes metric (i + 1) m1 right). m1 \<le> t \<and> t \<le> right"
        using "1.IH"(2) [OF True refl refl refl refl] ge \<open>m1 \<le> right\<close>
        unfolding m1_def m2_def by blast
      show ?thesis
      proof
        fix t assume "t \<in> set (ternary_probes metric i left right)"
        then consider "t = m1" | "t = m2" | "t \<in> set (ternary_probes metric (i + 1) m1 right)"
          unfolding probes by auto
        then show "left \<le> t \<and> t \<le> right"
        proof cases
          case 3
          then have "m1 \<le> t \<and> t \<le> right" using ih by blast
          then show ?thesis using m by linarith
        qed (use m in linarith)+
      qed
    qed
  qed
qed

lemma coarse_sample_mem:
  "j \<le> 20 \<Longrightarrow> start + of_nat j * stepSize \<in> set (coarse_samples start stepSize)"
  by (auto simp: coarse_samples_def)

lemma coarse_sample_elim:
  assumes "u \<in> set (coarse_samples start stepSize)"
  shows "\<exists>k. k \<le> 20 \<and> u = start + of_nat k * stepSize"
proof -
  from assms obtain k where k: "k < 21" "u = start + of_nat k * stepSize"
    by (auto simp: coarse_samples_def)
  from k(1) have "k \<le> 20" by simp
  with k(2) show ?thesis by blast
qed

text \<open>What the two loops of \<open>findOptimalEventTime\<close> establish, for any metric below 999.\<close>

lemma optimum_of_loops:
  fixes metric :: "real \<Rightarrow> real"
  assumes bound: "\<And>t. metric t < 999"
      and step: "start + 20 * stepSize = end'"
      and c: "coarse_loop metric start stepSize 0 start 999 = (bt, mm)"
      and t: "ternary_loop metric 0 (max start (bt - stepSize)) (min end' (bt + stepSize)) bt mm
                = (bt', mm')"
  defines "P \<equiv> coarse_samples start stepSize
               @ ternary_probes metric 0 (max start (bt - stepSize)) (min end' (bt + stepSize))"
  shows "mm' \<le> metric start" "mm' \<le> metric end'" "\<forall>t \<in> set P. mm' \<le> metric t"
    "bt' \<in> set P" "metric bt' = mm'"
    "start \<le> end' \<Longrightarrow> start \<le> bt' \<and> bt' \<le> end'"
proof -
  let ?l = "max start (bt - stepSize)"
  let ?r = "min end' (bt + stepSize)"
  note cs = coarse_loop_spec [OF c]
  note ts = ternary_loop_spec [OF t]
  have all_c: "mm \<le> metric (start + of_nat j * stepSize)" if "j \<le> 20" for j
    using cs that by simp
  have "mm \<le> metric (start + of_nat 0 * stepSize)" by (rule all_c) simp
  then have mm_start: "mm \<le> metric start" by simp
  have "mm \<le> metric (start + 20 * stepSize)"
    using all_c [of 20] by (simp only: of_nat_numeral order_refl)
  then have mm_end: "mm \<le> metric end'" by (simp only: step)
  have "mm \<noteq> 999" using mm_start bound [of start] by simp
  then obtain j where j: "j \<le> 20" "bt = start + of_nat j * stepSize" "mm = metric bt"
    using cs by auto
  have bt_in: "bt \<in> set (coarse_samples start stepSize)"
    unfolding j(2) using j(1) by (rule coarse_sample_mem)
  have le: "mm' \<le> mm" using ts by simp
  show "mm' \<le> metric start" using le mm_start by simp
  show "mm' \<le> metric end'" using le mm_end by simp
  have "mm' \<le> metric u" if "u \<in> set (coarse_samples start stepSize)" for u
  proof -
    from coarse_sample_elim [OF that]
    obtain k where "k \<le> 20" "u = start + of_nat k * stepSize" by blast
    then show ?thesis using all_c [of k] le by simp
  qed
  then show "\<forall>t \<in> set P. mm' \<le> metric t"
    using ts by (auto simp: P_def)
  show "bt' \<in> set P"
    using ts bt_in by (auto simp: P_def)
  show "metric bt' = mm'"
    using ts j(3) by auto
  show "start \<le> bt' \<and> bt' \<le> end'" if se: "start \<le> end'"
  proof -
    have s0: "0 \<le> stepSize" using se step by linarith
    have "0 \<le> of_nat j * stepSize" using s0 by simp
    moreover have "of_nat j * stepSize \<le> 20 * stepSize"
      using j(1) s0 by (intro mult_right_mono) auto
    ultimately have bt_range: "start \<le> bt" "bt \<le> end'"
      using j(2) step by linarith+
    have lr: "?l \<le> ?r" using bt_range s0 se by simp
    have "start \<le> u \<and> u \<le> end'" if "u \<in> set (ternary_probes metric 0 ?l ?r)" for u
    proof -
      have "?l \<le> u \<and> u \<le> ?r"
        using ternary_probes_range [OF lr, of metric 0] that by blast
      then show ?thesis by simp
    qed
    then show ?thesis
      using ts bt_range by blast
  qed
qed

text \<open>
  C5. For every window, the metric value returned by \<open>findOptimalEventTime\<close> is at most
  the alignment metric at \<open>start\<close> and at \<open>end\<close>; it is the minimum of the metric over the
  41 times at which the function evaluates it (21 coarse samples and 20 ternary probes);
  and the returned time is one of these times, with the returned value as its metric.
  The window need not satisfy \<open>start \<le> end\<close> for this.
\<close>

theorem findOptimalEventTime_minimum:
  "let metric = (\<lambda>t. getAlignmentMetric astro (newDate t) type targetIds useHP allBodies);
       optimal = findOptimalEventTime astro start end' type targetIds useHP strictMode
                   solarRadiusDeg allBodies;
       probes = probe_times astro start end' type targetIds useHP allBodies
   in opt_angle optimal \<le> metric start
    \<and> opt_angle optimal \<le> metric end'
    \<and> opt_angle optimal = Min (metric ` set probes)
    \<and> opt_time optimal \<in> set probes
    \<and> metric (opt_time optimal) = opt_angle optimal
    \<and> length probes = 41"
proof -
  define metric where "metric = (\<lambda>t. getAlignmentMetric astro (newDate t) type targetIds useHP allBodies)"
  have bound: "metric t < 999" for t
    using getAlignmentMetric_le [of astro "newDate t" type targetIds useHP allBodies]
    by (simp add: metric_def)
  obtain bt mm where c: "coarse_loop metric start ((end' - start) / 20) 0 start 999 = (bt, mm)"
    by (cases "coarse_loop metric start ((end' - start) / 20) 0 start 999")
  obtain bt' mm' where t: "ternary_loop metric 0 (max start (bt - (end' - start) / 20))
                (min end' (bt + (end' - start) / 20)) bt mm = (bt', mm')"
    by (cases "ternary_loop metric 0 (max start (bt - (end' - start) / 20))
                (min end' (bt + (end' - start) / 20)) bt mm")
  let ?P = "coarse_samples start ((end' - start) / 20)
               @ ternary_probes metric 0 (max start (bt - (end' - start) / 20))
                   (min end' (bt + (end' - start) / 20))"
  have step: "start + 20 * ((end' - start) / 20) = end'" by (simp add: field_simps)
  note o = optimum_of_loops [of metric, OF bound step c t]
  have opt: "findOptimalEventTime astro start end' type targetIds useHP strictMode
               solarRadiusDeg allBodies = \<lparr>opt_time = bt', opt_angle = mm'\<rparr>"
    using c t by (simp add: findOptimalEventTime_def Let_def flip: metric_def)
  have pr: "probe_times astro start end' type targetIds useHP allBodies = ?P"
    using c by (simp add: probe_times_def Let_def flip: metric_def)
  have "Min (metric ` set ?P) = mm'"
  proof (rule Min_eqI)
    show "finite (metric ` set ?P)" by simp
    show "mm' \<le> y" if "y \<in> metric ` set ?P" for y
      using that o(3) by auto
    show "mm' \<in> metric ` set ?P"
      using o(4) o(5) by (metis imageI)
  qed
  moreover have "length (ternary_probes m i l r) = 2 * (10 - i)" for m i l r
    by (induction m i l r rule: ternary_probes.induct)
       (subst ternary_probes.simps, auto simp: Let_def)
  then have "length ?P = 41"
    by (simp add: coarse_samples_def)
  ultimately show ?thesis
    unfolding opt pr Let_def using o(1,2,4,5)
    by (simp add: metric_def)
qed

section \<open>Found events\<close>



lemma scan_loop_not_found:
  "scan_loop guarded hit step n t = (t', False) \<Longrightarrow> t' = t + int n * step"
proof (induction n arbitrary: t)
  case 0
  then show ?case by simp
next
  case (Suc n)
  from Suc.prems have "scan_loop guarded hit step n (t + step) = (t', False)"
    by (auto simp: Let_def split: if_splits)
  then have "t' = (t + step) + int n * step" by (rule Suc.IH)
  then show ?case by (simp add: algebra_simps)
qed

























lemma scan_loop_first_hit:
  assumes "\<not> guarded (t + step)" "hit (t + step)" "0 < n"
  shows "scan_loop guarded hit step n t = (t + step, True)"
  using assms by (cases n) (simp_all add: Let_def)


lemma sorted_targets: "sort [''mars'', ''venus''] = [''mars'', ''venus'']"
  by simp

lemma conjunction_hit:
  "searchHit conjunctionEphemeris PLANETARY_ALIGNMENT [''mars'', ''venus''] 10 True strictMode r
     innerCatalogue t = (t = J2000_DATE)"
proof -
  show ?thesis
    by (cases "t = J2000_DATE")
       (simp_all add: searchHit_def checkSpecificAlignment_def conjunction_longitudes
          sort_numbers_def largestGap_def maxGap_loop.simps Let_def)
qed




section \<open>Continuous search\<close>

lemma scan_loop_never:
  assumes "\<And>t. \<not> hit t"
  shows "scan_loop guarded hit step n t = (t + int n * step, False)"
  by (induction n arbitrary: t) (simp_all add: Let_def assms algebra_simps)

lemma animate_idle:
  assumes "\<not> active (searchState s)" "\<not> isPlaying s"
  shows "animate astro settings celestialBodies yearLabel newId deltaTime s = s"
  using assms by (simp add: animate_def Let_def)

lemma animate_searching:
  assumes "active (searchState s)" "ss_type (searchState s) = Some type"
    "\<not> isCalculating (searchState s)" "\<not> continuousPaused (searchState s)"
  shows "animate astro settings celestialBodies yearLabel newId deltaTime s
           = searchFrame astro settings celestialBodies yearLabel newId type s"
  using assms by (simp add: animate_def Let_def)

lemma searchFrame_not_found:
  assumes "frameScan astro settings celestialBodies type s = (tempDate, False)"
  shows "searchFrame astro settings celestialBodies yearLabel newId type s
           = s\<lparr>currentDate := tempDate,
                targetArrays := (case ss_targetIds (searchState s) of
                                   None \<Rightarrow> targetArrays s
                                 | Some r \<Rightarrow> (targetArrays s)(r := frameTargets s)),
                searchState := (searchState s)\<lparr>status := ''Searching... '' @ yearLabel tempDate\<rparr>\<rparr>"
  using assms by (simp add: searchFrame_def Let_def)

lemma searchFrame_continuous:
  fixes newId :: string and yearLabel :: "int \<Rightarrow> string"
  assumes cont: "continuousIteration settings"
      and scan: "frameScan astro settings celestialBodies type s = (tempDate, True)"
  defines "ev \<equiv> newFoundEvent astro newId tempDate type (frameTargets s)
                   (activeTolerance (searchState s)) (useHighPrecision settings)
                   (ss_strictMode (searchState s)) (strictRadius (searchState s)) celestialBodies"
  defines "s' \<equiv> searchFrame astro settings celestialBodies yearLabel newId type s"
  defines "capped \<equiv> capReached (foundEvents (searchState s) @ [ev]) (endDate ev)
                       (searchStartTime (searchState s))"
  shows "foundEvents (searchState s') = foundEvents (searchState s) @ [ev]"
    and "currentDate s' = (if timeDirection s = 1 then endDate ev + MILLISECONDS_PER_DAY
                           else startDate ev - MILLISECONDS_PER_DAY)"
    and "currentScanDate (searchState s') = (if timeDirection s = 1 then endDate ev else startDate ev)"
    and "lastEventGuardRef s' = Some (eventKey type (frameTargets s), startDate ev, endDate ev)"
    and "active (searchState s') = (active (searchState s) \<and> \<not> capped)"
    and "completed (searchState s') = (completed (searchState s) \<or> capped)"
    and "status (searchState s') = (if capped then ''Completed'' else ''Found event. Continuing...'')"
    and "ss_type (searchState s') = ss_type (searchState s)"
    and "isCalculating (searchState s') = isCalculating (searchState s)"
    and "continuousPaused (searchState s') = continuousPaused (searchState s)"
    and "isPlaying s' = isPlaying s"
  using cont scan unfolding s'_def capped_def ev_def
  by (simp_all add: searchFrame_def Let_def)

lemma runCalculationBatch_done:
  assumes "calcTargetRef s = None"
  shows "runCalculationBatch astro settings celestialBodies newId s = s\<lparr>batchPending := False\<rparr>"
  using assms by (simp add: runCalculationBatch_def)

text \<open>
  The array of the target is sorted in place, and with it \<open>searchState.targetIds\<close> where
  that is the same array.
\<close>

lemma runCalculationBatch_sorts_in_place:
  assumes "calcTargetRef s = Some target"
  shows "targetArrays (runCalculationBatch astro settings celestialBodies newId s) (ct_ids target)
           = sort (targetArrays s (ct_ids target))"
  using assms by (simp add: runCalculationBatch_def Let_def split: prod.splits)

lemma runCalculationBatch_not_found:
  fixes newId :: string
  assumes "calcTargetRef s = Some target"
      and "batchScan astro settings celestialBodies target s = (currentTs, False)"
  defines "s' \<equiv> runCalculationBatch astro settings celestialBodies newId s"
  shows "foundEvents (searchState s') = foundEvents (searchState s)"
    and "calcDateRef s' = currentTs"
    and "calcTargetRef s' = Some target"
    and "completed (searchState s') = completed (searchState s)"
    and "isCalculating (searchState s') = isCalculating (searchState s)"
    and "batchPending s' = (isCalculating (searchState s) \<and> \<not> continuousPaused (searchState s))"
  using assms(1,2) unfolding s'_def
  by (auto simp add: runCalculationBatch_def Let_def)

lemma runCalculationBatch_continuous:
  fixes newId :: string
  assumes cont: "continuousIteration settings"
      and tgt: "calcTargetRef s = Some target"
      and scan: "batchScan astro settings celestialBodies target s = (currentTs, True)"
  defines "ev \<equiv> newFoundEvent astro newId currentTs (ct_type target)
                   (sort (targetArrays s (ct_ids target)))
                   (ct_tolerance target) (useHighPrecision settings) (ct_strictMode target)
                   (ct_solarRadius target) celestialBodies"
  defines "s' \<equiv> runCalculationBatch astro settings celestialBodies newId s"
  defines "capped \<equiv> capReached (foundEvents (searchState s) @ [ev]) (endDate ev)
                       (searchStartTime (searchState s))"
  shows "foundEvents (searchState s') = foundEvents (searchState s) @ [ev]"
    and "calcDateRef s' = (if timeDirection s = 1 then endDate ev + MILLISECONDS_PER_DAY
                           else startDate ev - MILLISECONDS_PER_DAY)"
    and "batchPending s'"
    and "capped \<Longrightarrow> calcTargetRef s' = None"
    and "capped \<Longrightarrow> \<not> isCalculating (searchState s')"
    and "capped \<Longrightarrow> completed (searchState s')"
    and "\<not> capped \<Longrightarrow> calcTargetRef s' = Some target"
    and "\<not> capped \<Longrightarrow> isCalculating (searchState s') = isCalculating (searchState s)"
    and "\<not> capped \<Longrightarrow> completed (searchState s') = completed (searchState s)"
  using cont tgt scan unfolding s'_def capped_def ev_def
  by (simp_all add: runCalculationBatch_def Let_def)

lemma empty_sky_no_transit:
  "\<not> isTransit None bid t tolerance useHP strictMode r []"
  by (simp add: isTransit_def getPositionHelper_def subtractVectors_def magnitude_def Let_def)

lemma empty_sky_frame:
  assumes "active (searchState s)" "ss_type (searchState s) = Some TRANSIT"
    "\<not> isCalculating (searchState s)" "\<not> continuousPaused (searchState s)"
    "speed (searchState s) = medium" "timeDirection s = 1"
  shows "emptySkyFrame s
           = s\<lparr>currentDate := currentDate s + 15 * MILLISECONDS_PER_DAY,
               targetArrays := (case ss_targetIds (searchState s) of
                                  None \<Rightarrow> targetArrays s
                                | Some r \<Rightarrow> (targetArrays s)(r := frameTargets s)),
               searchState := (searchState s)\<lparr>status := ''Searching... ''\<rparr>\<rparr>"
proof -
  have never: "\<not> searchHit None TRANSIT targets tolerance useHP strictMode r [] t"
    for targets tolerance useHP strictMode r t
    by (cases targets) (simp_all add: searchHit_def empty_sky_no_transit)
  have "frameScan None contSettings [] TRANSIT s
          = (currentDate s + int 15 * (timeDirection s * MILLISECONDS_PER_DAY), False)"
    unfolding frameScan_def Let_def using assms(5)
    by (simp add: scan_loop_never [OF never])
  then have scan: "frameScan None contSettings [] TRANSIT s
                     = (currentDate s + 15 * MILLISECONDS_PER_DAY, False)"
    using assms(6) by simp
  show ?thesis
    unfolding emptySkyFrame_def animate_searching [OF assms(1-4)]
      searchFrame_not_found [OF scan]
    by (simp add: blankLabel_def)
qed

lemma empty_sky_scan:
  "(emptySkyFrame ^^ Suc n) transitSearch
     = transitSearch\<lparr>currentDate := J2000_DATE - MILLISECONDS_PER_DAY
                                       + (1 + int n) * (15 * MILLISECONDS_PER_DAY),
          searchState := (searchState transitSearch)\<lparr>status := ''Searching... ''\<rparr>\<rparr>"
proof (induction n)
  case 0
  have "emptySkyFrame transitSearch
          = transitSearch\<lparr>currentDate := currentDate transitSearch + 15 * MILLISECONDS_PER_DAY,
               targetArrays := (case ss_targetIds (searchState transitSearch) of
                                  None \<Rightarrow> targetArrays transitSearch
                                | Some r \<Rightarrow> (targetArrays transitSearch)(r := frameTargets transitSearch)),
               searchState := (searchState transitSearch)\<lparr>status := ''Searching... ''\<rparr>\<rparr>"
    by (rule empty_sky_frame)
       (simp_all add: transitSearch_def idleSimulation_def idleSearchState_def)
  then show ?case
    by (simp add: transitSearch_def idleSimulation_def idleSearchState_def frameTargets_def)
next
  case (Suc n)
  let ?s = "transitSearch\<lparr>currentDate := J2000_DATE - MILLISECONDS_PER_DAY
                                       + (1 + int n) * (15 * MILLISECONDS_PER_DAY),
          searchState := (searchState transitSearch)\<lparr>status := ''Searching... ''\<rparr>\<rparr>"
  have "emptySkyFrame ?s
          = ?s\<lparr>currentDate := currentDate ?s + 15 * MILLISECONDS_PER_DAY,
               targetArrays := (case ss_targetIds (searchState ?s) of
                                  None \<Rightarrow> targetArrays ?s
                                | Some r \<Rightarrow> (targetArrays ?s)(r := frameTargets ?s)),
               searchState := (searchState ?s)\<lparr>status := ''Searching... ''\<rparr>\<rparr>"
    by (rule empty_sky_frame)
       (simp_all add: transitSearch_def idleSimulation_def idleSearchState_def)
  then have step: "emptySkyFrame ?s
          = transitSearch\<lparr>currentDate := J2000_DATE - MILLISECONDS_PER_DAY
                                       + (1 + int (Suc n)) * (15 * MILLISECONDS_PER_DAY),
          searchState := (searchState transitSearch)\<lparr>status := ''Searching... ''\<rparr>\<rparr>"
    by (simp add: transitSearch_def idleSimulation_def idleSearchState_def frameTargets_def
        algebra_simps)
  have "(emptySkyFrame ^^ Suc (Suc n)) transitSearch
          = emptySkyFrame ((emptySkyFrame ^^ Suc n) transitSearch)"
    by (simp only: funpow.simps o_apply)
  also have "\<dots> = emptySkyFrame ?s"
    by (simp only: Suc.IH)
  finally show ?case
    by (simp only: step)
qed

lemma long_scan:
  "longScan = transitSearch\<lparr>currentDate := J2000_DATE - MILLISECONDS_PER_DAY
                                       + 48667 * (15 * MILLISECONDS_PER_DAY),
          searchState := (searchState transitSearch)\<lparr>status := ''Searching... ''\<rparr>\<rparr>"
proof -
  have "(48667 :: nat) = Suc 48666" by simp
  then have "longScan = (emptySkyFrame ^^ Suc 48666) transitSearch"
    by (simp only: longScan_def)
  also have "\<dots> = transitSearch\<lparr>currentDate := J2000_DATE - MILLISECONDS_PER_DAY
                                       + (1 + int 48666) * (15 * MILLISECONDS_PER_DAY),
          searchState := (searchState transitSearch)\<lparr>status := ''Searching... ''\<rparr>\<rparr>"
    by (rule empty_sky_scan)
  finally show ?thesis by simp
qed

lemma conjunction_window:
  "calculateEventDuration conjunctionEphemeris J2000_DATE PLANETARY_ALIGNMENT [''mars'', ''venus'']
     10 True strictMode r innerCatalogue = (J2000_DATE, J2000_DATE)"
proof -
  have chk: "duration_check conjunctionEphemeris PLANETARY_ALIGNMENT [''mars'', ''venus''] 10 True
               strictMode r innerCatalogue = (\<lambda>t. t = J2000_DATE)"
    using conjunction_hit [of strictMode r]
    by (intro ext) (simp add: duration_check_def searchHit_def)
  have "expand_start (\<lambda>t. t = J2000_DATE) J2000_DATE J2000_DATE = J2000_DATE"
    by (subst expand_start.simps) (simp add: Let_def MILLISECONDS_PER_DAY_def)
  moreover have "expand_end (\<lambda>t. t = J2000_DATE) J2000_DATE J2000_DATE = J2000_DATE"
    by (subst expand_end.simps) (simp add: Let_def MILLISECONDS_PER_DAY_def)
  ultimately show ?thesis
    by (simp add: calculateEventDuration_def Let_def chk)
qed

lemma conjunction_event_window:
  "startDate (newFoundEvent conjunctionEphemeris newId J2000_DATE PLANETARY_ALIGNMENT
      [''mars'', ''venus''] 10 True strictMode r innerCatalogue) = J2000_DATE"
  "endDate (newFoundEvent conjunctionEphemeris newId J2000_DATE PLANETARY_ALIGNMENT
      [''mars'', ''venus''] 10 True strictMode r innerCatalogue) = J2000_DATE"
  by (simp_all add: newFoundEvent_def conjunction_window Let_def)

lemma one_day_below_caps:
  "\<not> capReached [ev] J2000_DATE (J2000_DATE - MILLISECONDS_PER_DAY)"
  by (simp add: capReached_def Let_def MILLISECONDS_PER_DAY_def)

lemma fiftieth_event_caps:
  "capReached (replicate 49 ev' @ [ev]) dend startTime"
  by (simp add: capReached_def Let_def)

lemma conjunction_scans:
  "frameScan conjunctionEphemeris contSettings innerCatalogue PLANETARY_ALIGNMENT alignmentSearch
     = (J2000_DATE, True)"
  "batchScan conjunctionEphemeris contSettings innerCatalogue alignmentTarget alignmentCalculation
     = (J2000_DATE, True)"
  "batchScan conjunctionEphemeris contSettings innerCatalogue alignmentTarget longHistory
     = (J2000_DATE, True)"
proof -
  have first: "scan_loop (inGuard None (eventKey PLANETARY_ALIGNMENT [''mars'', ''venus'']))
            (searchHit conjunctionEphemeris PLANETARY_ALIGNMENT [''mars'', ''venus''] 10 True False
               r innerCatalogue)
            MILLISECONDS_PER_DAY n (J2000_DATE - MILLISECONDS_PER_DAY)
          = (J2000_DATE - MILLISECONDS_PER_DAY + MILLISECONDS_PER_DAY, True)" if "0 < n" for n r
    using that by (intro scan_loop_first_hit) (simp_all add: inGuard_def conjunction_hit)
  show "frameScan conjunctionEphemeris contSettings innerCatalogue PLANETARY_ALIGNMENT
          alignmentSearch = (J2000_DATE, True)"
    using first [of 15]
    by (simp add: frameScan_def alignmentSearch_def idleSimulation_def idleSearchState_def
        contSettings_def hpSettings_def frameTargets_def Let_def)
  show "batchScan conjunctionEphemeris contSettings innerCatalogue alignmentTarget
          alignmentCalculation = (J2000_DATE, True)"
    using first [of 200]
    by (simp add: batchScan_def alignmentCalculation_def alignmentTarget_def idleSimulation_def
        idleSearchState_def contSettings_def hpSettings_def Let_def)
  show "batchScan conjunctionEphemeris contSettings innerCatalogue alignmentTarget
          longHistory = (J2000_DATE, True)"
    using first [of 200]
    by (simp add: batchScan_def longHistory_def alignmentCalculation_def alignmentTarget_def
        idleSimulation_def idleSearchState_def contSettings_def hpSettings_def Let_def)
qed

text \<open>
  C6, as stated: scanning stops as soon as the simulated span from the search start
  reaches 2000 years, and never continues past the caps. It fails for a continuous transit
  search that finds nothing (no ephemeris, empty catalogue): after 48667 frames at medium
  speed the scan is 730005 days, more than 2000 years of 365 days, from its start; the
  search is still active and not completed, and the next frame scans 15 days further.
\<close>

theorem scan_past_span_cap_counterexample:
  "continuousIteration contSettings
   \<and> searchStartTime (searchState longScan) = searchStartTime (searchState transitSearch)
   \<and> \<bar>of_int (currentDate longScan) - of_int (searchStartTime (searchState longScan))\<bar>
        / (of_int MILLISECONDS_PER_DAY * 365 :: real) \<ge> 2000
   \<and> active (searchState longScan)
   \<and> \<not> completed (searchState longScan)
   \<and> foundEvents (searchState longScan) = []
   \<and> currentDate (emptySkyFrame longScan) = currentDate longScan + 15 * MILLISECONDS_PER_DAY
   \<and> active (searchState (emptySkyFrame longScan))
   \<and> \<not> completed (searchState (emptySkyFrame longScan))"
proof -
  have next_frame: "emptySkyFrame longScan
          = longScan\<lparr>currentDate := currentDate longScan + 15 * MILLISECONDS_PER_DAY,
               targetArrays := (case ss_targetIds (searchState longScan) of
                                  None \<Rightarrow> targetArrays longScan
                                | Some r \<Rightarrow> (targetArrays longScan)(r := frameTargets longScan)),
               searchState := (searchState longScan)\<lparr>status := ''Searching... ''\<rparr>\<rparr>"
    by (rule empty_sky_frame)
       (simp_all add: long_scan transitSearch_def idleSimulation_def idleSearchState_def)
  show ?thesis
    unfolding next_frame
    by (simp add: long_scan transitSearch_def idleSimulation_def idleSearchState_def
        contSettings_def hpSettings_def MILLISECONDS_PER_DAY_def J2000_DATE_def)
qed

text \<open>
  C6, amended: with continuous iteration enabled, the two caps are tested when an event is
  found, and only then. A searching frame of \<open>animate\<close> that finds an event appends it
  and sets the date to one day past the window (\<open>end\<close> plus a day when scanning forward,
  \<open>start\<close> minus a day when scanning backward); when the history then has 50 events, or
  the end of the window is 2000 years of 365 days or more from the search start, the
  search is deactivated and marked completed with status \<open>Completed\<close>, and later frames
  leave the state alone; otherwise it stays active. A run of \<open>runCalculationBatch\<close> that
  finds an event appends it, moves \<open>calcDateRef\<close> to one day past the window and
  schedules another run, whether or not a cap is reached: the caps are tested in the state
  updater, which runs after the callback has tested \<open>calcTargetRef\<close>. On a cap the
  updater clears the target and marks the state completed and no longer calculating, so
  that the scheduled run returns at once: it scans nothing, changes nothing else, and
  schedules no further run. Otherwise the target stays and the scheduled run scans on from
  \<open>calcDateRef\<close>. A frame or batch that finds nothing keeps scanning (15, 4 or 30 days,
  or 200 days) whatever span has been covered.
\<close>

theorem continuous_search_step:
  assumes cont: "continuousIteration settings"
  shows
   "(active (searchState s) \<and> ss_type (searchState s) = Some type
      \<and> \<not> isCalculating (searchState s) \<and> \<not> continuousPaused (searchState s) \<longrightarrow>
      (let s' = animate astro settings celestialBodies yearLabel newId deltaTime s;
           tempDate = fst (frameScan astro settings celestialBodies type s);
           found = snd (frameScan astro settings celestialBodies type s);
           ev = newFoundEvent astro newId tempDate type (frameTargets s)
                  (activeTolerance (searchState s)) (useHighPrecision settings)
                  (ss_strictMode (searchState s)) (strictRadius (searchState s)) celestialBodies;
           capped = capReached (foundEvents (searchState s) @ [ev]) (endDate ev)
                      (searchStartTime (searchState s))
       in (found \<longrightarrow>
             foundEvents (searchState s') = foundEvents (searchState s) @ [ev]
           \<and> currentDate s' = (if timeDirection s = 1 then endDate ev + MILLISECONDS_PER_DAY
                               else startDate ev - MILLISECONDS_PER_DAY)
           \<and> active (searchState s') = (\<not> capped)
           \<and> completed (searchState s') = (completed (searchState s) \<or> capped)
           \<and> (capped \<longrightarrow> status (searchState s') = ''Completed''
                 \<and> (\<not> isPlaying s \<longrightarrow>
                      animate astro settings celestialBodies yearLabel newId deltaTime s' = s')))
        \<and> (\<not> found \<longrightarrow>
             foundEvents (searchState s') = foundEvents (searchState s)
           \<and> active (searchState s')
           \<and> completed (searchState s') = completed (searchState s)
           \<and> currentDate s' = tempDate
           \<and> tempDate = currentDate s
                + (case speed (searchState s) of low \<Rightarrow> 4 | medium \<Rightarrow> 15 | high \<Rightarrow> 30)
                  * (timeDirection s * MILLISECONDS_PER_DAY))))
    \<and> (calcTargetRef s = Some target \<longrightarrow>
      (let s' = runCalculationBatch astro settings celestialBodies newId s;
           currentTs = fst (batchScan astro settings celestialBodies target s);
           found = snd (batchScan astro settings celestialBodies target s);
           ev = newFoundEvent astro newId currentTs (ct_type target)
                  (sort (targetArrays s (ct_ids target)))
                  (ct_tolerance target) (useHighPrecision settings) (ct_strictMode target)
                  (ct_solarRadius target) celestialBodies;
           capped = capReached (foundEvents (searchState s) @ [ev]) (endDate ev)
                      (searchStartTime (searchState s))
       in (found \<longrightarrow>
             foundEvents (searchState s') = foundEvents (searchState s) @ [ev]
           \<and> calcDateRef s' = (if timeDirection s = 1 then endDate ev + MILLISECONDS_PER_DAY
                                else startDate ev - MILLISECONDS_PER_DAY)
           \<and> batchPending s'
           \<and> (capped \<longrightarrow> \<not> isCalculating (searchState s') \<and> completed (searchState s')
                 \<and> calcTargetRef s' = None
                 \<and> runCalculationBatch astro settings celestialBodies newId s'
                     = s'\<lparr>batchPending := False\<rparr>)
           \<and> (\<not> capped \<longrightarrow> calcTargetRef s' = Some target
                 \<and> isCalculating (searchState s') = isCalculating (searchState s)
                 \<and> completed (searchState s') = completed (searchState s)))
        \<and> (\<not> found \<longrightarrow>
             foundEvents (searchState s') = foundEvents (searchState s)
           \<and> completed (searchState s') = completed (searchState s)
           \<and> calcTargetRef s' = Some target
           \<and> calcDateRef s' = currentTs
           \<and> currentTs = calcDateRef s + 200 * (timeDirection s * MILLISECONDS_PER_DAY)
           \<and> batchPending s' = (isCalculating (searchState s) \<and> \<not> continuousPaused (searchState s)))))"
proof (intro conjI impI)
  assume pre: "active (searchState s) \<and> ss_type (searchState s) = Some type
      \<and> \<not> isCalculating (searchState s) \<and> \<not> continuousPaused (searchState s)"
  obtain tempDate found where scan:
    "frameScan astro settings celestialBodies type s = (tempDate, found)"
    by (cases "frameScan astro settings celestialBodies type s")
  have an: "animate astro settings celestialBodies yearLabel newId deltaTime s
              = searchFrame astro settings celestialBodies yearLabel newId type s"
    using pre by (intro animate_searching) simp_all
  show "let s' = animate astro settings celestialBodies yearLabel newId deltaTime s;
           tempDate = fst (frameScan astro settings celestialBodies type s);
           found = snd (frameScan astro settings celestialBodies type s);
           ev = newFoundEvent astro newId tempDate type (frameTargets s)
                  (activeTolerance (searchState s)) (useHighPrecision settings)
                  (ss_strictMode (searchState s)) (strictRadius (searchState s)) celestialBodies;
           capped = capReached (foundEvents (searchState s) @ [ev]) (endDate ev)
                      (searchStartTime (searchState s))
       in (found \<longrightarrow>
             foundEvents (searchState s') = foundEvents (searchState s) @ [ev]
           \<and> currentDate s' = (if timeDirection s = 1 then endDate ev + MILLISECONDS_PER_DAY
                               else startDate ev - MILLISECONDS_PER_DAY)
           \<and> active (searchState s') = (\<not> capped)
           \<and> completed (searchState s') = (completed (searchState s) \<or> capped)
           \<and> (capped \<longrightarrow> status (searchState s') = ''Completed''
                 \<and> (\<not> isPlaying s \<longrightarrow>
                      animate astro settings celestialBodies yearLabel newId deltaTime s' = s')))
        \<and> (\<not> found \<longrightarrow>
             foundEvents (searchState s') = foundEvents (searchState s)
           \<and> active (searchState s')
           \<and> completed (searchState s') = completed (searchState s)
           \<and> currentDate s' = tempDate
           \<and> tempDate = currentDate s
                + (case speed (searchState s) of low \<Rightarrow> 4 | medium \<Rightarrow> 15 | high \<Rightarrow> 30)
                  * (timeDirection s * MILLISECONDS_PER_DAY))"
  proof (cases found)
    case True
    have scanT: "frameScan astro settings celestialBodies type s = (tempDate, True)"
      using scan True by simp
    note f = searchFrame_continuous [OF cont scanT, where newId = newId and yearLabel = yearLabel]
    have idle: "animate astro settings celestialBodies yearLabel newId deltaTime
                  (searchFrame astro settings celestialBodies yearLabel newId type s)
                = searchFrame astro settings celestialBodies yearLabel newId type s"
      if "capReached (foundEvents (searchState s)
             @ [newFoundEvent astro newId tempDate type (frameTargets s)
                  (activeTolerance (searchState s)) (useHighPrecision settings)
                  (ss_strictMode (searchState s)) (strictRadius (searchState s)) celestialBodies])
            (endDate (newFoundEvent astro newId tempDate type (frameTargets s)
                  (activeTolerance (searchState s)) (useHighPrecision settings)
                  (ss_strictMode (searchState s)) (strictRadius (searchState s)) celestialBodies))
            (searchStartTime (searchState s))" "\<not> isPlaying s"
      using that f(5) f(11) by (intro animate_idle) simp_all
    show ?thesis
      unfolding Let_def an scan fst_conv snd_conv
      using True pre f(1,2,5,6,7) idle by simp
  next
    case False
    have nf: "searchFrame astro settings celestialBodies yearLabel newId type s
           = s\<lparr>currentDate := tempDate,
                targetArrays := (case ss_targetIds (searchState s) of
                                   None \<Rightarrow> targetArrays s
                                 | Some r \<Rightarrow> (targetArrays s)(r := frameTargets s)),
                searchState := (searchState s)\<lparr>status := ''Searching... '' @ yearLabel tempDate\<rparr>\<rparr>"
      using scan False by (intro searchFrame_not_found) simp
    have "tempDate = currentDate s
            + int (case speed (searchState s) of low \<Rightarrow> 4 | medium \<Rightarrow> 15 | high \<Rightarrow> 30)
              * (timeDirection s * MILLISECONDS_PER_DAY)"
      using scan False unfolding frameScan_def Let_def by (intro scan_loop_not_found) simp
    then have td: "tempDate = currentDate s
                + (case speed (searchState s) of low \<Rightarrow> 4 | medium \<Rightarrow> 15 | high \<Rightarrow> 30)
                  * (timeDirection s * MILLISECONDS_PER_DAY)"
      by (cases "speed (searchState s)") simp_all
    show ?thesis
      unfolding Let_def an scan fst_conv snd_conv nf
      using False pre td by simp
  qed
next
  assume tgt: "calcTargetRef s = Some target"
  obtain currentTs found where scan:
    "batchScan astro settings celestialBodies target s = (currentTs, found)"
    by (cases "batchScan astro settings celestialBodies target s")
  show "let s' = runCalculationBatch astro settings celestialBodies newId s;
           currentTs = fst (batchScan astro settings celestialBodies target s);
           found = snd (batchScan astro settings celestialBodies target s);
           ev = newFoundEvent astro newId currentTs (ct_type target)
                  (sort (targetArrays s (ct_ids target)))
                  (ct_tolerance target) (useHighPrecision settings) (ct_strictMode target)
                  (ct_solarRadius target) celestialBodies;
           capped = capReached (foundEvents (searchState s) @ [ev]) (endDate ev)
                      (searchStartTime (searchState s))
       in (found \<longrightarrow>
             foundEvents (searchState s') = foundEvents (searchState s) @ [ev]
           \<and> calcDateRef s' = (if timeDirection s = 1 then endDate ev + MILLISECONDS_PER_DAY
                                else startDate ev - MILLISECONDS_PER_DAY)
           \<and> batchPending s'
           \<and> (capped \<longrightarrow> \<not> isCalculating (searchState s') \<and> completed (searchState s')
                 \<and> calcTargetRef s' = None
                 \<and> runCalculationBatch astro settings celestialBodies newId s'
                     = s'\<lparr>batchPending := False\<rparr>)
           \<and> (\<not> capped \<longrightarrow> calcTargetRef s' = Some target
                 \<and> isCalculating (searchState s') = isCalculating (searchState s)
                 \<and> completed (searchState s') = completed (searchState s)))
        \<and> (\<not> found \<longrightarrow>
             foundEvents (searchState s') = foundEvents (searchState s)
           \<and> completed (searchState s') = completed (searchState s)
           \<and> calcTargetRef s' = Some target
           \<and> calcDateRef s' = currentTs
           \<and> currentTs = calcDateRef s + 200 * (timeDirection s * MILLISECONDS_PER_DAY)
           \<and> batchPending s' = (isCalculating (searchState s) \<and> \<not> continuousPaused (searchState s)))"
  proof (cases found)
    case True
    have scanT: "batchScan astro settings celestialBodies target s = (currentTs, True)"
      using scan True by simp
    note b = runCalculationBatch_continuous [OF cont tgt scanT, where newId = newId]
    let ?s' = "runCalculationBatch astro settings celestialBodies newId s"
    have again: "runCalculationBatch astro settings celestialBodies newId ?s'
                   = ?s'\<lparr>batchPending := False\<rparr>"
      if "calcTargetRef ?s' = None"
      using that by (rule runCalculationBatch_done)
    show ?thesis
      unfolding Let_def scan fst_conv snd_conv
      using True b again by auto
  next
    case False
    have scanF: "batchScan astro settings celestialBodies target s = (currentTs, False)"
      using scan False by simp
    note b = runCalculationBatch_not_found [OF tgt scanF, where newId = newId]
    have "currentTs = calcDateRef s + int 200 * (timeDirection s * MILLISECONDS_PER_DAY)"
      using scan False unfolding batchScan_def Let_def by (intro scan_loop_not_found) simp
    then have "currentTs = calcDateRef s + 200 * (timeDirection s * MILLISECONDS_PER_DAY)"
      by simp
    then show ?thesis
      unfolding Let_def scan fst_conv snd_conv
      using False b by simp
  qed
qed

theorem continuous_search_step_witness:
  "continuousIteration contSettings
   \<and> active (searchState alignmentSearch)
   \<and> ss_type (searchState alignmentSearch) = Some PLANETARY_ALIGNMENT
   \<and> \<not> isCalculating (searchState alignmentSearch)
   \<and> \<not> continuousPaused (searchState alignmentSearch)
   \<and> snd (frameScan conjunctionEphemeris contSettings innerCatalogue PLANETARY_ALIGNMENT
            alignmentSearch)
   \<and> length (foundEvents (searchState (animate conjunctionEphemeris contSettings innerCatalogue
        blankLabel ''e1'' 0 alignmentSearch))) = 1
   \<and> currentDate (animate conjunctionEphemeris contSettings innerCatalogue blankLabel ''e1'' 0
        alignmentSearch) = J2000_DATE + MILLISECONDS_PER_DAY
   \<and> active (searchState (animate conjunctionEphemeris contSettings innerCatalogue blankLabel
        ''e1'' 0 alignmentSearch))
   \<and> calcTargetRef alignmentCalculation = Some alignmentTarget
   \<and> snd (batchScan conjunctionEphemeris contSettings innerCatalogue alignmentTarget
            alignmentCalculation)
   \<and> calcDateRef (runCalculationBatch conjunctionEphemeris contSettings innerCatalogue ''e1''
        alignmentCalculation) = J2000_DATE + MILLISECONDS_PER_DAY
   \<and> batchPending (runCalculationBatch conjunctionEphemeris contSettings innerCatalogue ''e1''
        alignmentCalculation)
   \<and> calcTargetRef (runCalculationBatch conjunctionEphemeris contSettings innerCatalogue ''e1''
        alignmentCalculation) = Some alignmentTarget
   \<and> calcTargetRef longHistory = Some alignmentTarget
   \<and> snd (batchScan conjunctionEphemeris contSettings innerCatalogue alignmentTarget longHistory)
   \<and> length (foundEvents (searchState (runCalculationBatch conjunctionEphemeris contSettings
        innerCatalogue ''e1'' longHistory))) = 50
   \<and> calcDateRef (runCalculationBatch conjunctionEphemeris contSettings innerCatalogue ''e1''
        longHistory) = J2000_DATE + MILLISECONDS_PER_DAY
   \<and> batchPending (runCalculationBatch conjunctionEphemeris contSettings innerCatalogue ''e1''
        longHistory)
   \<and> calcTargetRef (runCalculationBatch conjunctionEphemeris contSettings innerCatalogue ''e1''
        longHistory) = None
   \<and> completed (searchState (runCalculationBatch conjunctionEphemeris contSettings
        innerCatalogue ''e1'' longHistory))
   \<and> \<not> isCalculating (searchState (runCalculationBatch conjunctionEphemeris contSettings
        innerCatalogue ''e1'' longHistory))
   \<and> runCalculationBatch conjunctionEphemeris contSettings innerCatalogue ''e1''
        (runCalculationBatch conjunctionEphemeris contSettings innerCatalogue ''e1'' longHistory)
      = (runCalculationBatch conjunctionEphemeris contSettings innerCatalogue ''e1'' longHistory)
          \<lparr>batchPending := False\<rparr>"
proof -
  have cont: "continuousIteration contSettings"
    by (simp add: contSettings_def)
  have st: "active (searchState alignmentSearch)"
    "ss_type (searchState alignmentSearch) = Some PLANETARY_ALIGNMENT"
    "\<not> isCalculating (searchState alignmentSearch)"
    "\<not> continuousPaused (searchState alignmentSearch)"
    "foundEvents (searchState alignmentSearch) = []"
    "searchStartTime (searchState alignmentSearch) = J2000_DATE - MILLISECONDS_PER_DAY"
    "timeDirection alignmentSearch = 1"
    "frameTargets alignmentSearch = [''mars'', ''venus'']"
    "activeTolerance (searchState alignmentSearch) = 10"
    "useHighPrecision contSettings"
    by (simp_all add: alignmentSearch_def idleSimulation_def idleSearchState_def frameTargets_def
        contSettings_def hpSettings_def)
  have tg: "ct_type alignmentTarget = PLANETARY_ALIGNMENT" "ct_tolerance alignmentTarget = 10"
    "ct_ids alignmentTarget = 0"
    by (simp_all add: alignmentTarget_def)
  have ct: "calcTargetRef alignmentCalculation = Some alignmentTarget"
    "foundEvents (searchState alignmentCalculation) = []"
    "searchStartTime (searchState alignmentCalculation) = J2000_DATE - MILLISECONDS_PER_DAY"
    "timeDirection alignmentCalculation = 1"
    "sort (targetArrays alignmentCalculation 0) = [''mars'', ''venus'']"
    by (simp_all add: alignmentCalculation_def idleSimulation_def idleSearchState_def)
  have lh: "calcTargetRef longHistory = Some alignmentTarget"
    "foundEvents (searchState longHistory) = replicate 49 conjunctionEvent"
    "timeDirection longHistory = 1"
    "sort (targetArrays longHistory 0) = [''mars'', ''venus'']"
    by (simp_all add: longHistory_def alignmentCalculation_def idleSimulation_def
        idleSearchState_def)
  note frame = continuous_search_step [OF cont, where s = alignmentSearch
      and type = PLANETARY_ALIGNMENT and astro = conjunctionEphemeris
      and celestialBodies = innerCatalogue and yearLabel = blankLabel and newId = "''e1''"
      and deltaTime = 0, THEN conjunct1]
  note batch = continuous_search_step [OF cont, where s = alignmentCalculation
      and target = alignmentTarget and astro = conjunctionEphemeris
      and celestialBodies = innerCatalogue and newId = "''e1''", THEN conjunct2]
  note capped = continuous_search_step [OF cont, where s = longHistory
      and target = alignmentTarget and astro = conjunctionEphemeris
      and celestialBodies = innerCatalogue and newId = "''e1''", THEN conjunct2]
  have a: "length (foundEvents (searchState (animate conjunctionEphemeris contSettings
              innerCatalogue blankLabel ''e1'' 0 alignmentSearch))) = 1
        \<and> currentDate (animate conjunctionEphemeris contSettings innerCatalogue blankLabel ''e1'' 0
              alignmentSearch) = J2000_DATE + MILLISECONDS_PER_DAY
        \<and> active (searchState (animate conjunctionEphemeris contSettings innerCatalogue blankLabel
              ''e1'' 0 alignmentSearch))"
    using frame st
    by (simp add: Let_def conjunction_scans conjunction_event_window one_day_below_caps)
  have b: "calcDateRef (runCalculationBatch conjunctionEphemeris contSettings innerCatalogue ''e1''
              alignmentCalculation) = J2000_DATE + MILLISECONDS_PER_DAY
        \<and> batchPending (runCalculationBatch conjunctionEphemeris contSettings innerCatalogue ''e1''
              alignmentCalculation)
        \<and> calcTargetRef (runCalculationBatch conjunctionEphemeris contSettings innerCatalogue ''e1''
              alignmentCalculation) = Some alignmentTarget"
    using batch ct tg st(10)
    by (simp add: Let_def conjunction_scans conjunction_event_window one_day_below_caps)
  have c: "length (foundEvents (searchState (runCalculationBatch conjunctionEphemeris contSettings
              innerCatalogue ''e1'' longHistory))) = 50
        \<and> calcDateRef (runCalculationBatch conjunctionEphemeris contSettings innerCatalogue ''e1''
              longHistory) = J2000_DATE + MILLISECONDS_PER_DAY
        \<and> batchPending (runCalculationBatch conjunctionEphemeris contSettings innerCatalogue ''e1''
              longHistory)
        \<and> calcTargetRef (runCalculationBatch conjunctionEphemeris contSettings innerCatalogue ''e1''
              longHistory) = None
        \<and> completed (searchState (runCalculationBatch conjunctionEphemeris contSettings
              innerCatalogue ''e1'' longHistory))
        \<and> \<not> isCalculating (searchState (runCalculationBatch conjunctionEphemeris contSettings
              innerCatalogue ''e1'' longHistory))
        \<and> runCalculationBatch conjunctionEphemeris contSettings innerCatalogue ''e1''
              (runCalculationBatch conjunctionEphemeris contSettings innerCatalogue ''e1'' longHistory)
            = (runCalculationBatch conjunctionEphemeris contSettings innerCatalogue ''e1'' longHistory)
                \<lparr>batchPending := False\<rparr>"
    using capped lh tg st(10)
    by (simp add: Let_def conjunction_scans conjunction_event_window fiftieth_event_caps)
  show ?thesis
    using cont st(1-4) ct(1) lh(1) a b c by (simp add: conjunction_scans)
qed


end
